theory Spec2Isabelle
  imports Complex_Main "HOL-Library.Sublist"
begin

section \<open>Python values, exceptions and effects\<close>

text \<open>
  The two scripts are glue around an external model library.  Everything the scripts
  compute themselves is defined below as HOL functions; every call that leaves the
  scripts (the model library, torch, pandas, the platform) is a field of a record of
  functions, so that each theorem holds for every behaviour of those calls.

  Python values that the scripts inspect are \<open>pyval\<close>: \<open>None\<close>, booleans, numbers,
  strings and function objects.  Numbers are rationals: every finite float is one, and
  the scripts only compare and store them.  A path is a string or \<open>None\<close>.
\<close>

datatype pyval = PNone | PBool bool | PNum rat | PStr string | PFunction string

type_synonym path = "string option"

text \<open>Truth value of an object, as tested by \<open>if x\<close>, \<open>x and ...\<close>.\<close>

fun truthy :: "pyval \<Rightarrow> bool" where
  "truthy PNone = False"
| "truthy (PBool b) = b"
| "truthy (PNum r) = (r \<noteq> 0)"
| "truthy (PStr s) = (s \<noteq> [])"
| "truthy (PFunction f) = True"

fun isinstance_str :: "pyval \<Rightarrow> bool" where
  "isinstance_str (PStr s) = True"
| "isinstance_str v = False"

text \<open>\<open>str(p)\<close> for a path that may be \<open>None\<close>.\<close>

definition str_of_path :: "path \<Rightarrow> string" where
  "str_of_path p = (case p of None \<Rightarrow> ''None'' | Some s \<Rightarrow> s)"

text \<open>\<open>a in b\<close> on strings: \<open>a\<close> occurs in \<open>b\<close> as a contiguous substring.\<close>

fun str_in :: "string \<Rightarrow> string \<Rightarrow> bool" where
  "str_in a [] = (a = [])"
| "str_in a (c # cs) = (prefix a (c # cs) \<or> str_in a cs)"

text \<open>
  An exception is its exact class (what \<open>type(e)\<close> returns) and its text (what
  \<open>str(e)\<close> returns).  \<open>KeyboardInterrupt\<close>, \<open>SystemExit\<close>, \<open>GeneratorExit\<close>
  and the classes \<open>OtherBaseException\<close> stands for derive from \<open>BaseException\<close>
  only; every other class derives from \<open>Exception\<close>, \<open>OtherError\<close> standing for
  those that are not named here.
\<close>

datatype exn_type =
  AssertionError | UnboundLocalError | NameError | KeyError | TypeError | ValueError
  | OtherError string
  | KeyboardInterrupt | SystemExit | GeneratorExit | OtherBaseException string

datatype exn = Exn (exn_class: exn_type) (exn_msg: string)

text \<open>\<open>isinstance(e, Exception)\<close>: what \<open>except Exception\<close> tests.\<close>

fun derives_from_Exception :: "exn_type \<Rightarrow> bool" where
  "derives_from_Exception KeyboardInterrupt = False"
| "derives_from_Exception SystemExit = False"
| "derives_from_Exception GeneratorExit = False"
| "derives_from_Exception (OtherBaseException c) = False"
| "derives_from_Exception c = True"

definition isinstance_Exception :: "exn \<Rightarrow> bool" where
  "isinstance_Exception e = derives_from_Exception (exn_class e)"

text \<open>
  A statement that may raise and may change a state \<open>'s\<close> maps the state to
  a result and the state it leaves: \<open>Inl e\<close> when it raised \<open>e\<close>, \<open>Inr a\<close> when
  it finished with value \<open>a\<close>.
\<close>

definition return_ok :: "'a \<Rightarrow> 's \<Rightarrow> (exn + 'a) \<times> 's" where
  "return_ok a s = (Inr a, s)"

definition raise :: "exn \<Rightarrow> 's \<Rightarrow> (exn + 'a) \<times> 's" where
  "raise e s = (Inl e, s)"

definition then_do ::
  "('s \<Rightarrow> (exn + 'a) \<times> 's) \<Rightarrow> ('a \<Rightarrow> 's \<Rightarrow> (exn + 'b) \<times> 's) \<Rightarrow> 's \<Rightarrow> (exn + 'b) \<times> 's" where
  "then_do m f s = (case m s of (Inl e, s') \<Rightarrow> (Inl e, s') | (Inr a, s') \<Rightarrow> f a s')"

text \<open>\<open>assert b, msg\<close>\<close>

definition py_assert :: "bool \<Rightarrow> string \<Rightarrow> 's \<Rightarrow> (exn + unit) \<times> 's" where
  "py_assert b msg = (if b then return_ok () else raise (Exn AssertionError msg))"

text \<open>\<open>d[k]\<close> on a dictionary.\<close>

definition subscript :: "(string \<rightharpoonup> 'v) \<Rightarrow> string \<Rightarrow> 's \<Rightarrow> (exn + 'v) \<times> 's" where
  "subscript d k = (case d k of None \<Rightarrow> raise (Exn KeyError k) | Some v \<Rightarrow> return_ok v)"

section \<open>The benchmark script: data\<close>

text \<open>
  One row of the table returned by \<open>export_formats()\<close>:
  \<open>(name, format, suffix, cpu, gpu)\<close>, and one row of the result list \<open>y\<close>:
  \<open>[name, mark, size, metric, speed]\<close>.  The two marks of the second column are the
  check mark (\<open>Passed\<close>) and the cross (\<open>Failed\<close>).
\<close>

record format_row =
  fmt_name :: string
  fmt_format :: string
  fmt_suffix :: string
  fmt_cpu :: bool
  fmt_gpu :: bool

datatype status = Passed | Failed

record bench_row =
  row_name :: string
  row_status :: status
  row_size :: "rat option"
  row_metric :: "rat option"
  row_speed :: "rat option"

text \<open>A \<open>torch.device\<close> object and the argument it is made from.\<close>

record torch_dev =
  dev_type :: string
  dev_index :: "nat option"

datatype dev_arg = DevInt nat | DevStr string

text \<open>What \<open>export.val(...)\<close> returns, as far as the script reads it.\<close>

record val_results =
  results_dict :: "string \<rightharpoonup> pyval"
  results_speed :: "string \<rightharpoonup> pyval"

text \<open>The calls that leave the script, in the order they are made.\<close>

datatype call =
  Call_YOLO path | Call_export string | Call_val string | Call_file_size path
  | Call_check_yolo | Call_eval string

text \<open>What the script writes to the logger.\<close>

datatype log_entry =
  Warning_failure string exn
  | Info_newline
  | Info_complete string string nat
  | Info_table "string list" "bench_row list"
  | Info_first_two "string list" "(string \<times> status) list"

text \<open>
  The program state of \<open>run_benchmarks\<close>: the list \<open>y\<close>, the local variables
  \<open>data\<close> and \<open>key\<close> (unbound until an iteration assigns them, and kept from one
  iteration to the next), the log, the trace of external calls and the state \<open>'w\<close> of
  everything outside the script.
\<close>

record 'w bench_state =
  y_rows :: "bench_row list"
  data_var :: "string option"
  key_var :: "string option"
  logged :: "log_entry list"
  calls :: "call list"
  world :: 'w

text \<open>
  The library the script calls.  \<open>'m\<close> is the type of model objects.  A call that can
  change the outside world takes and returns its state.  \<open>py_round\<close> is the builtin
  \<open>round\<close> on floats, \<open>py_str\<close> the builtin \<open>str\<close>, \<open>path_name\<close> is
  \<open>Path(p).name\<close>, \<open>py_eval\<close> the builtin \<open>eval\<close>.
\<close>

record ('m, 'w) library =
  export_formats :: "format_row list"
  platform_system :: string
  torch_device :: "dev_arg \<Rightarrow> exn + torch_dev"
  YOLO :: "path \<Rightarrow> 'w \<Rightarrow> (exn + 'm) \<times> 'w"
  ckpt_path :: "'m \<Rightarrow> path"
  task :: "'m \<Rightarrow> string"
  export :: "'m \<Rightarrow> nat \<Rightarrow> string \<Rightarrow> bool \<Rightarrow> torch_dev \<Rightarrow> 'w \<Rightarrow> (exn + path) \<times> 'w"
  val :: "'m \<Rightarrow> string \<Rightarrow> nat \<Rightarrow> torch_dev \<Rightarrow> bool \<Rightarrow> 'w \<Rightarrow> (exn + val_results) \<times> 'w"
  file_size :: "path \<Rightarrow> 'w \<Rightarrow> (exn + rat) \<times> 'w"
  check_yolo :: "torch_dev \<Rightarrow> 'w \<Rightarrow> (exn + unit) \<times> 'w"
  py_eval :: "string \<Rightarrow> 'w \<Rightarrow> (exn + pyval) \<times> 'w"
  py_round :: "rat \<Rightarrow> nat \<Rightarrow> rat"
  py_str :: "pyval \<Rightarrow> string"
  path_name :: "string \<Rightarrow> string"

text \<open>An external call: it is recorded in the trace and acts on the outside world.\<close>

definition extern ::
  "call \<Rightarrow> ('w \<Rightarrow> (exn + 'a) \<times> 'w) \<Rightarrow> 'w bench_state \<Rightarrow> (exn + 'a) \<times> 'w bench_state" where
  "extern c f s =
     (case f (world s) of (r, w') \<Rightarrow> (r, s\<lparr>calls := calls s @ [c], world := w'\<rparr>))"

text \<open>Reading a local variable that may not have been assigned yet.\<close>

definition load_local ::
  "string \<Rightarrow> ('s \<Rightarrow> 'a option) \<Rightarrow> 's \<Rightarrow> (exn + 'a) \<times> 's" where
  "load_local n var s =
     (case var s of None \<Rightarrow> raise (Exn UnboundLocalError n) s | Some v \<Rightarrow> return_ok v s)"

text \<open>\<open>round(v, n)\<close> on a value read from a dictionary of results.\<close>

definition round_val ::
  "('m, 'w) library \<Rightarrow> pyval \<Rightarrow> nat \<Rightarrow> 's \<Rightarrow> (exn + rat) \<times> 's" where
  "round_val L v n =
     (case v of
        PNum r \<Rightarrow> return_ok (py_round L r n)
      | PBool b \<Rightarrow> return_ok (if b then 1 else 0)
      | _ \<Rightarrow> raise (Exn TypeError ''type doesn't define __round__ method''))"

section \<open>The benchmark script: one iteration of the loop\<close>

text \<open>Lines 51 to 57: the four assertions that open the \<open>try\<close> block.\<close>

definition check_supported ::
  "('m, 'w) library \<Rightarrow> torch_dev \<Rightarrow> nat \<Rightarrow> format_row \<Rightarrow> 's \<Rightarrow> (exn + unit) \<times> 's" where
  "check_supported L device i r =
     then_do (py_assert (i \<notin> {9, 10}) ''inference not supported'') (\<lambda>_.
     then_do (py_assert (i \<noteq> 5 \<or> platform_system L = ''Darwin'')
                ''inference only supported on macOS>=10.13'') (\<lambda>_.
     then_do (if str_in ''cpu'' (dev_type device)
              then py_assert (fmt_cpu r) ''inference not supported on CPU''
              else return_ok ()) (\<lambda>_.
             (if str_in ''cuda'' (dev_type device)
              then py_assert (fmt_gpu r) ''inference not supported on GPU''
              else return_ok ()))))"

text \<open>Lines 60 to 66: export, reload, and the check of the file name.\<close>

definition export_step ::
  "('m, 'w) library \<Rightarrow> 'm \<Rightarrow> nat \<Rightarrow> bool \<Rightarrow> torch_dev \<Rightarrow> format_row
     \<Rightarrow> 'w bench_state \<Rightarrow> (exn + path \<times> 'm) \<times> 'w bench_state" where
  "export_step L model imgsz half device r =
     then_do
       (if fmt_format r = ''-'' then return_ok (ckpt_path L model, model)
        else
          then_do (extern (Call_export (fmt_format r))
                     (export L model imgsz (fmt_format r) half device)) (\<lambda>filename.
          then_do (extern (Call_YOLO filename) (YOLO L filename)) (\<lambda>exported.
            return_ok (filename, exported))))
       (\<lambda>(filename, exported).
          then_do (py_assert (str_in (fmt_suffix r) (str_of_path filename)) ''export failed'')
            (\<lambda>_. return_ok (filename, exported)))"

text \<open>Lines 69 to 74: the \<open>if\<close>/\<open>elif\<close> chain on the task; no \<open>else\<close>.\<close>

definition select_data :: "string \<Rightarrow> 'w bench_state \<Rightarrow> 'w bench_state" where
  "select_data t s =
     (if t = ''detect''
      then s\<lparr>data_var := Some ''coco128.yaml'', key_var := Some ''metrics/mAP50-95(B)''\<rparr>
      else if t = ''segment''
      then s\<lparr>data_var := Some ''coco128-seg.yaml'', key_var := Some ''metrics/mAP50-95(M)''\<rparr>
      else if t = ''classify''
      then s\<lparr>data_var := Some ''imagenet100'', key_var := Some ''metrics/accuracy_top5''\<rparr>
      else s)"

text \<open>The keys that these lines can assign to \<open>key\<close>.\<close>

definition metric_keys :: "string list" where
  "metric_keys = [''metrics/mAP50-95(B)'', ''metrics/mAP50-95(M)'', ''metrics/accuracy_top5'']"

text \<open>Lines 76 and 77: validation and the two values read from its result.\<close>

definition validate_step ::
  "('m, 'w) library \<Rightarrow> 'm \<Rightarrow> 'm \<Rightarrow> nat \<Rightarrow> bool \<Rightarrow> torch_dev
     \<Rightarrow> 'w bench_state \<Rightarrow> (exn + pyval \<times> pyval) \<times> 'w bench_state" where
  "validate_step L model exported imgsz half device s =
     then_do (load_local ''data'' data_var) (\<lambda>data.
     then_do (extern (Call_val data) (val L exported data imgsz device half)) (\<lambda>results.
     then_do (load_local ''key'' key_var) (\<lambda>key.
     then_do (subscript (results_dict results) key) (\<lambda>metric.
     then_do (subscript (results_speed results) ''inference'') (\<lambda>speed.
       return_ok (metric, speed))))))
     (select_data (task L model) s)"

text \<open>Line 78: the row of a format that was measured.\<close>

definition measured_row ::
  "('m, 'w) library \<Rightarrow> string \<Rightarrow> path \<Rightarrow> pyval \<Rightarrow> pyval
     \<Rightarrow> 'w bench_state \<Rightarrow> (exn + bench_row) \<times> 'w bench_state" where
  "measured_row L name filename metric speed =
     then_do (extern (Call_file_size filename) (file_size L filename)) (\<lambda>sz.
     then_do (round_val L metric 4) (\<lambda>m.
     then_do (round_val L speed 2) (\<lambda>sp.
       return_ok \<lparr>row_name = name, row_status = Passed, row_size = Some (py_round L sz 1),
                  row_metric = Some m, row_speed = Some sp\<rparr>)))"

text \<open>Lines 51 to 78: the body of the \<open>try\<close> block, up to the row it would append.\<close>

definition attempt ::
  "('m, 'w) library \<Rightarrow> 'm \<Rightarrow> nat \<Rightarrow> bool \<Rightarrow> torch_dev \<Rightarrow> nat \<Rightarrow> format_row
     \<Rightarrow> 'w bench_state \<Rightarrow> (exn + bench_row) \<times> 'w bench_state" where
  "attempt L model imgsz half device i r =
     then_do (check_supported L device i r) (\<lambda>_.
     then_do (export_step L model imgsz half device r) (\<lambda>(filename, exported).
     then_do (validate_step L model exported imgsz half device) (\<lambda>(metric, speed).
       measured_row L (fmt_name r) filename metric speed)))"

text \<open>Line 83: the row of a format that failed.\<close>

definition failed_row :: "string \<Rightarrow> bench_row" where
  "failed_row name =
     \<lparr>row_name = name, row_status = Failed, row_size = None, row_metric = None,
      row_speed = None\<rparr>"

text \<open>
  Lines 50 to 83: one iteration.  A row is appended when the \<open>try\<close> block finishes.
  The handler of line 79 receives the instances of \<open>Exception\<close> only; any other
  exception leaves the iteration and so the loop.  The handler first runs the assertion
  of line 81 when \<open>hard_fail\<close> is true; an assertion that fails there raises out of
  the handler and so out of the loop.
\<close>

definition bench_iter ::
  "('m, 'w) library \<Rightarrow> 'm \<Rightarrow> nat \<Rightarrow> bool \<Rightarrow> torch_dev \<Rightarrow> pyval \<Rightarrow> nat \<times> format_row
     \<Rightarrow> 'w bench_state \<Rightarrow> (exn + unit) \<times> 'w bench_state" where
  "bench_iter L model imgsz half device hard_fail ir s =
     (case attempt L model imgsz half device (fst ir) (snd ir) s of
        (Inr row, s') \<Rightarrow> (Inr (), s'\<lparr>y_rows := y_rows s' @ [row]\<rparr>)
      | (Inl e, s') \<Rightarrow>
          if isinstance_Exception e
          then
            then_do
              (if truthy hard_fail
               then py_assert (exn_class e = AssertionError)
                      (''Benchmark --hard-fail for '' @ fmt_name (snd ir) @ '': '' @ exn_msg e)
               else return_ok ())
              (\<lambda>_ s''. (Inr (), s''\<lparr>logged := logged s'' @ [Warning_failure (fmt_name (snd ir)) e],
                                     y_rows := y_rows s'' @ [failed_row (fmt_name (snd ir))]\<rparr>))
              s'
          else (Inl e, s'))"

text \<open>Line 49: the loop over the rows with their index.\<close>

fun bench_loop ::
  "('m, 'w) library \<Rightarrow> 'm \<Rightarrow> nat \<Rightarrow> bool \<Rightarrow> torch_dev \<Rightarrow> pyval \<Rightarrow> (nat \<times> format_row) list
     \<Rightarrow> 'w bench_state \<Rightarrow> (exn + unit) \<times> 'w bench_state" where
  "bench_loop L model imgsz half device hard_fail [] s = (Inr (), s)"
| "bench_loop L model imgsz half device hard_fail (ir # rest) s =
     (case bench_iter L model imgsz half device hard_fail ir s of
        (Inl e, s') \<Rightarrow> (Inl e, s')
      | (Inr u, s') \<Rightarrow> bench_loop L model imgsz half device hard_fail rest s')"

section \<open>The benchmark script: report and floor\<close>

text \<open>
  Name lookup.  A name that the body of \<open>run_benchmarks\<close> never assigns is looked up
  in the globals of the module and then in the builtins; it raises \<open>NameError\<close> when
  neither has it.  The names below are the parameters and assigned names of
  \<open>run_benchmarks\<close>, the names bound at the top level of the module (its imports, its
  one function, and the attributes every module has), and the functions of Python's
  \<open>builtins\<close> module.  All objects bound at module level here are modules, classes,
  functions, the logger and the non-empty settings dictionary.
\<close>

definition run_benchmarks_locals :: "string list" where
  "run_benchmarks_locals =
     [''model'', ''imgsz'', ''half'', ''device'', ''hard_fail'', ''y'', ''t0'', ''i'', ''name'',
      ''format'', ''suffix'', ''cpu'', ''gpu'', ''filename'', ''export'', ''data'', ''key'',
      ''results'', ''metric'', ''speed'', ''e'', ''c'', ''df'', ''metrics'', ''floor'']"

definition module_globals :: "string list" where
  "module_globals =
     [''platform'', ''time'', ''Path'', ''pd'', ''torch'', ''YOLO'', ''export_formats'',
      ''LOGGER'', ''SETTINGS'', ''check_yolo'', ''file_size'', ''run_benchmarks'',
      ''__name__'', ''__doc__'', ''__package__'', ''__loader__'', ''__spec__'', ''__file__'',
      ''__cached__'', ''__builtins__'']"

definition builtin_functions :: "string list" where
  "builtin_functions =
     [''abs'', ''aiter'', ''all'', ''anext'', ''any'', ''ascii'', ''bin'', ''bool'',
      ''breakpoint'', ''bytearray'', ''bytes'', ''callable'', ''chr'', ''classmethod'',
      ''compile'', ''complex'', ''delattr'', ''dict'', ''dir'', ''divmod'', ''enumerate'',
      ''eval'', ''exec'', ''filter'', ''float'', ''format'', ''frozenset'', ''getattr'',
      ''globals'', ''hasattr'', ''hash'', ''help'', ''hex'', ''id'', ''input'', ''int'',
      ''isinstance'', ''issubclass'', ''iter'', ''len'', ''list'', ''locals'', ''map'', ''max'',
      ''memoryview'', ''min'', ''next'', ''object'', ''oct'', ''open'', ''ord'', ''pow'',
      ''print'', ''property'', ''range'', ''repr'', ''reversed'', ''round'', ''set'',
      ''setattr'', ''slice'', ''sorted'', ''staticmethod'', ''str'', ''sum'', ''super'',
      ''tuple'', ''type'', ''vars'', ''zip'', ''__import__'']"

definition load_global :: "string \<Rightarrow> 's \<Rightarrow> (exn + pyval) \<times> 's" where
  "load_global n =
     (if n \<in> set module_globals then return_ok (PFunction n)
      else if n \<in> set builtin_functions then return_ok (PFunction n)
      else raise (Exn NameError n))"

text \<open>
  The marks and the header of the second column are not ASCII; they are written as
  their UTF-8 bytes.
\<close>

definition status_header :: string where
  "status_header = ''Status'' @ [CHR 0xE2, CHR 0x9D, CHR 0x94]"

text \<open>
  A data frame is its column names and its rows.  \<open>pd.DataFrame(y, columns=c)\<close>
  raises when a row has not as many fields as there are names; every row of \<open>y\<close> has
  five.
\<close>

record dataframe =
  df_columns :: "string list"
  df_rows :: "bench_row list"

definition DataFrame :: "bench_row list \<Rightarrow> string list \<Rightarrow> 's \<Rightarrow> (exn + dataframe) \<times> 's" where
  "DataFrame y c =
     (if y = [] \<or> length c = 5 then return_ok \<lparr>df_columns = c, df_rows = y\<rparr>
      else raise (Exn ValueError ''columns passed do not match the data''))"

text \<open>The cell of a row in the column at a position, \<open>None\<close> where the row has none.\<close>

definition opt_num :: "rat option \<Rightarrow> pyval" where
  "opt_num v = (case v of None \<Rightarrow> PNone | Some r \<Rightarrow> PNum r)"

definition mark :: "status \<Rightarrow> string" where
  "mark st =
     (case st of Passed \<Rightarrow> [CHR 0xE2, CHR 0x9C, CHR 0x85] | Failed \<Rightarrow> [CHR 0xE2, CHR 0x9D, CHR 0x8C])"

definition row_cells :: "bench_row \<Rightarrow> pyval list" where
  "row_cells r =
     [PStr (row_name r), PStr (mark (row_status r)), opt_num (row_size r),
      opt_num (row_metric r), opt_num (row_speed r)]"

text \<open>
  \<open>df[k].array\<close>: the cells of the one column named \<open>k\<close>.  No such column is a
  \<open>KeyError\<close>; with several, \<open>df[k]\<close> is a frame, which has no \<open>array\<close>.
\<close>

fun index_of :: "'a \<Rightarrow> 'a list \<Rightarrow> nat" where
  "index_of k [] = 0"
| "index_of k (c # cs) = (if c = k then 0 else Suc (index_of k cs))"

definition column_array :: "dataframe \<Rightarrow> string \<Rightarrow> 's \<Rightarrow> (exn + pyval list) \<times> 's" where
  "column_array df k =
     (if count_list (df_columns df) k = 0 then raise (Exn KeyError k)
      else if count_list (df_columns df) k = 1
      then return_ok (map (\<lambda>r. row_cells r ! index_of k (df_columns df)) (df_rows df))
      else raise (Exn (OtherError ''AttributeError'') ''array''))"

text \<open>Writing one entry to the logger.\<close>

definition log_entry :: "log_entry \<Rightarrow> 'w bench_state \<Rightarrow> (exn + unit) \<times> 'w bench_state" where
  "log_entry l s = (Inr (), s\<lparr>logged := logged s @ [l]\<rparr>)"

text \<open>
  Lines 86 to 92.  In \<open>a if map else b\<close> the name \<open>map\<close> is read first, then the
  chosen branch is evaluated.
\<close>

definition print_results ::
  "('m, 'w) library \<Rightarrow> 'm \<Rightarrow> nat \<Rightarrow> torch_dev
     \<Rightarrow> 'w bench_state \<Rightarrow> (exn + dataframe) \<times> 'w bench_state" where
  "print_results L model imgsz device =
     then_do (log_entry Info_newline) (\<lambda>_.
     then_do (extern Call_check_yolo (check_yolo L device)) (\<lambda>_.
     then_do (load_global ''map'') (\<lambda>flag.
     then_do (if truthy flag
              then then_do (load_local ''key'' key_var) (\<lambda>key.
                     return_ok [''Format'', status_header, ''Size (MB)'', key,
                                ''Inference time (ms/im)''])
              else return_ok [''Format'', ''Export'', [], []]) (\<lambda>c.
     then_do (\<lambda>s. DataFrame (y_rows s) c s) (\<lambda>df.
     then_do (case ckpt_path L model of
                None \<Rightarrow> raise (Exn TypeError ''expected str, bytes or os.PathLike object'')
              | Some p \<Rightarrow> return_ok (path_name L p)) (\<lambda>ckpt_name.
     then_do (load_local ''data'' data_var) (\<lambda>data.
     then_do (log_entry (Info_complete ckpt_name data imgsz)) (\<lambda>_.
     then_do (load_global ''map'') (\<lambda>flag'.
     then_do (log_entry
                (if truthy flag' then Info_table (df_columns df) (df_rows df)
                 else Info_first_two (take 2 (df_columns df))
                        (map (\<lambda>r. (row_name r, row_status r)) (df_rows df)))) (\<lambda>_.
       return_ok df))))))))))"

text \<open>
  \<open>x > floor\<close> for cells of a frame against the value of the floor expression: numbers
  and booleans compare as numbers, strings with strings, anything else raises.
\<close>

fun str_gt :: "string \<Rightarrow> string \<Rightarrow> bool" where
  "str_gt [] b = False"
| "str_gt (x # xs) [] = True"
| "str_gt (x # xs) (y # ys) =
     ((of_char x :: nat) > of_char y \<or> ((of_char x :: nat) = of_char y \<and> str_gt xs ys))"

fun as_number :: "pyval \<Rightarrow> rat option" where
  "as_number (PNum r) = Some r"
| "as_number (PBool b) = Some (if b then 1 else 0)"
| "as_number v = None"

definition py_gt :: "pyval \<Rightarrow> pyval \<Rightarrow> exn + bool" where
  "py_gt a b =
     (case (as_number a, as_number b) of
        (Some x, Some y) \<Rightarrow> Inr (x > y)
      | _ \<Rightarrow> (case (a, b) of
                (PStr x, PStr y) \<Rightarrow> Inr (str_gt x y)
              | _ \<Rightarrow> Inl (Exn TypeError ''> not supported between these instances'')))"

definition notna :: "pyval \<Rightarrow> bool" where
  "notna v = (v \<noteq> PNone)"

text \<open>
  \<open>all(x > floor for x in metrics if pd.notna(x))\<close>: the cells are visited in order,
  the first comparison that is false ends the visit.
\<close>

fun all_above :: "pyval \<Rightarrow> pyval list \<Rightarrow> exn + bool" where
  "all_above floor_v [] = Inr True"
| "all_above floor_v (x # xs) =
     (if notna x
      then (case py_gt x floor_v of
              Inl e \<Rightarrow> Inl e
            | Inr b \<Rightarrow> if b then all_above floor_v xs else Inr False)
      else all_above floor_v xs)"

text \<open>Lines 94 to 97.\<close>

definition floor_check ::
  "('m, 'w) library \<Rightarrow> pyval \<Rightarrow> dataframe \<Rightarrow> 'w bench_state \<Rightarrow> (exn + unit) \<times> 'w bench_state" where
  "floor_check L hard_fail df =
     (if truthy hard_fail \<and> isinstance_str hard_fail
      then
        then_do (load_local ''key'' key_var) (\<lambda>key.
        then_do (column_array df key) (\<lambda>metrics.
        then_do (case hard_fail of
                   PStr expr \<Rightarrow> extern (Call_eval expr) (py_eval L expr)
                 | _ \<Rightarrow> raise (Exn TypeError ''eval() arg 1 must be a string'')) (\<lambda>floor_v.
        then_do (case all_above floor_v metrics of Inl e \<Rightarrow> raise e | Inr b \<Rightarrow> return_ok b)
          (\<lambda>b. py_assert b (''HARD FAIL: metric < floor '' @ py_str L floor_v)))))
      else return_ok ())"

section \<open>The benchmark script: the whole function\<close>

text \<open>
  \<open>device.isnumeric()\<close> and \<open>int(device)\<close> on a string of ASCII characters.
\<close>

definition isnumeric :: "string \<Rightarrow> bool" where
  "isnumeric s = (s \<noteq> [] \<and> list_all (\<lambda>c. c \<in> set ''0123456789'') s)"

definition py_int :: "string \<Rightarrow> nat" where
  "py_int s = foldl (\<lambda>n c. 10 * n + (of_char c - 48)) 0 s"

definition init_state :: "'w \<Rightarrow> 'w bench_state" where
  "init_state w =
     \<lparr>y_rows = [], data_var = None, key_var = None, logged = [], calls = [], world = w\<rparr>"

text \<open>Lines 44 to 92: everything up to and including the printed report.\<close>

definition benchmarks_report ::
  "('m, 'w) library \<Rightarrow> path \<Rightarrow> nat \<Rightarrow> bool \<Rightarrow> string \<Rightarrow> pyval
     \<Rightarrow> 'w bench_state \<Rightarrow> (exn + dataframe) \<times> 'w bench_state" where
  "benchmarks_report L model imgsz half device hard_fail =
     then_do (\<lambda>s. case torch_device L (if isnumeric device then DevInt (py_int device)
                                        else DevStr device) of
                     Inl e \<Rightarrow> raise e s | Inr d \<Rightarrow> return_ok d s) (\<lambda>dev.
     then_do (extern (Call_YOLO model) (YOLO L model)) (\<lambda>m.
     then_do (bench_loop L m imgsz half dev hard_fail (enumerate 0 (export_formats L))) (\<lambda>_.
       print_results L m imgsz dev)))"

text \<open>Lines 39 to 97.\<close>

definition run_benchmarks ::
  "('m, 'w) library \<Rightarrow> path \<Rightarrow> nat \<Rightarrow> bool \<Rightarrow> string \<Rightarrow> pyval
     \<Rightarrow> 'w \<Rightarrow> (exn + unit) \<times> 'w bench_state" where
  "run_benchmarks L model imgsz half device hard_fail w =
     then_do (benchmarks_report L model imgsz half device hard_fail)
       (floor_check L hard_fail) (init_state w)"

section \<open>The command-line script: argument parsing\<close>

text \<open>
  \<open>parse_args\<close> builds an \<open>argparse\<close> parser, adds two options and parses the
  command line.  An option added with \<open>add_argument(name, default=d)\<close> stores one
  string; its destination is its name without the leading dashes.  The parser itself
  adds \<open>-h\<close> and \<open>--help\<close>.
\<close>

record argument_decl =
  arg_option :: string
  arg_default :: string

definition dest_of :: "string \<Rightarrow> string" where
  "dest_of opt =
     map (\<lambda>c. if c = CHR ''-'' then CHR ''_'' else c) (dropWhile (\<lambda>c. c = CHR ''-'') opt)"

text \<open>
  How \<open>argparse\<close> reads one token of the command line: as an argument, as an option
  that stores a value (with the value when it is attached by \<open>=\<close>), as a request for
  help, as an ambiguous abbreviation, as an unknown option, or as the separator
  \<open>--\<close>.  The declared options are long ones (two dashes), as those of the script
  are; a long option may be abbreviated to a prefix that no other long option shares.
  A single dash is an argument.  A longer token that starts with a dash and names no
  option is an argument when it looks like a negative number or holds a space, and an
  unknown option otherwise; that test is the parameter \<open>arg_like\<close>, since releases of
  the library differ on it.
\<close>

datatype token_kind =
  Argument | Store string "string option" | Help | Ambiguous | Unknown | Separator

definition partition_eq :: "string \<Rightarrow> string \<times> string option" where
  "partition_eq t =
     (if CHR ''='' \<in> set t
      then (takeWhile (\<lambda>c. c \<noteq> CHR ''='') t, Some (tl (dropWhile (\<lambda>c. c \<noteq> CHR ''='') t)))
      else (t, None))"

definition classify :: "(string \<Rightarrow> bool) \<Rightarrow> argument_decl list \<Rightarrow> string \<Rightarrow> token_kind" where
  "classify arg_like decls t =
     (if t = [] \<or> hd t \<noteq> CHR ''-'' then Argument
      else if t = ''--'' then Separator
      else if t = ''-h'' \<or> t = ''--help'' then Help
      else if t \<in> set (map arg_option decls) then Store (dest_of t) None
      else if length t = 1 then Argument
      else
        (case partition_eq t of (name, v) \<Rightarrow>
           if v \<noteq> None \<and> (name = ''-h'' \<or> name = ''--help'') then Help
           else if v \<noteq> None \<and> name \<in> set (map arg_option decls) then Store (dest_of name) v
           else if take 2 t = ''--'' then
             (case filter (prefix name) (''--help'' # map arg_option decls) of
                [] \<Rightarrow> if arg_like t then Argument else Unknown
              | [opt] \<Rightarrow> if opt = ''--help'' then Help else Store (dest_of opt) v
              | _ \<Rightarrow> Ambiguous)
           else if take 2 t = ''-h'' then Help
           else if arg_like t then Argument else Unknown))"

text \<open>
  The parser has no positional argument, so it returns only when the command line is a
  sequence of storing options, each with its value attached or followed by one
  argument.  Anything else ends the process (\<open>SystemExit\<close>, after the help text or a
  usage error): the result \<open>None\<close>.  A later occurrence of an option replaces an
  earlier one.
\<close>

fun consume ::
  "(string \<Rightarrow> bool) \<Rightarrow> argument_decl list \<Rightarrow> string list \<Rightarrow> (string \<rightharpoonup> string)
     \<Rightarrow> (string \<rightharpoonup> string) option" where
  "consume arg_like decls [] ns = Some ns"
| "consume arg_like decls [t] ns =
     (case classify arg_like decls t of
        Store d (Some v) \<Rightarrow> Some (ns(d \<mapsto> v))
      | _ \<Rightarrow> None)"
| "consume arg_like decls (t # u # ts) ns =
     (case classify arg_like decls t of
        Store d (Some v) \<Rightarrow> consume arg_like decls (u # ts) (ns(d \<mapsto> v))
      | Store d None \<Rightarrow>
          if classify arg_like decls u = Argument
          then consume arg_like decls ts (ns(d \<mapsto> u))
          else None
      | _ \<Rightarrow> None)"

text \<open>The namespace starts with the default of every declared option.\<close>

definition defaults :: "argument_decl list \<Rightarrow> (string \<rightharpoonup> string)" where
  "defaults decls = map_of (map (\<lambda>d. (dest_of (arg_option d), arg_default d)) decls)"

definition argparse_parse_args ::
  "(string \<Rightarrow> bool) \<Rightarrow> argument_decl list \<Rightarrow> string list \<Rightarrow> (string \<rightharpoonup> string) option" where
  "argparse_parse_args arg_like decls argv = consume arg_like decls argv (defaults decls)"

text \<open>Lines 10 to 15 of the script.\<close>

definition script_arguments :: "argument_decl list" where
  "script_arguments =
     [\<lparr>arg_option = ''--mode'', arg_default = ''train''\<rparr>,
      \<lparr>arg_option = ''--cfg'', arg_default = ''cfg.yaml''\<rparr>]"

definition parse_args :: "(string \<Rightarrow> bool) \<Rightarrow> string list \<Rightarrow> (string \<rightharpoonup> string) option" where
  "parse_args arg_like argv = argparse_parse_args arg_like script_arguments argv"

section \<open>The command-line script: loading and dispatch\<close>

text \<open>
  The library the script calls: the configuration loader and the model object with its
  four operations.  The state of the script is the trace of these calls and the state
  of the outside world.
\<close>

datatype cli_call =
  Call_check_yaml string | Call_yaml_load string | Call_new_YOLO pyval
  | Call_train string | Call_predict string | Call_model_val string | Call_model_export string

record 'w cli_state =
  cli_calls :: "cli_call list"
  cli_world :: 'w

record ('m, 'r, 'w) cli_library =
  check_yaml :: "string \<Rightarrow> 'w \<Rightarrow> (exn + string) \<times> 'w"
  yaml_load :: "string \<Rightarrow> 'w \<Rightarrow> (exn + (string \<rightharpoonup> pyval)) \<times> 'w"
  new_YOLO :: "pyval \<Rightarrow> 'w \<Rightarrow> (exn + 'm) \<times> 'w"
  model_train :: "'m \<Rightarrow> string \<Rightarrow> 'w \<Rightarrow> (exn + 'r) \<times> 'w"
  model_predict :: "'m \<Rightarrow> string \<Rightarrow> 'w \<Rightarrow> (exn + 'r) \<times> 'w"
  model_val :: "'m \<Rightarrow> string \<Rightarrow> 'w \<Rightarrow> (exn + 'r) \<times> 'w"
  model_export :: "'m \<Rightarrow> string \<Rightarrow> 'w \<Rightarrow> (exn + 'r) \<times> 'w"

definition cli_extern ::
  "cli_call \<Rightarrow> ('w \<Rightarrow> (exn + 'a) \<times> 'w) \<Rightarrow> 'w cli_state \<Rightarrow> (exn + 'a) \<times> 'w cli_state" where
  "cli_extern c f s =
     (case f (cli_world s) of (r, w') \<Rightarrow> (r, \<lparr>cli_calls = cli_calls s @ [c], cli_world = w'\<rparr>))"

text \<open>Reading an attribute of the namespace.\<close>

definition getattr :: "(string \<rightharpoonup> string) \<Rightarrow> string \<Rightarrow> 's \<Rightarrow> (exn + string) \<times> 's" where
  "getattr ns a =
     (case ns a of None \<Rightarrow> raise (Exn (OtherError ''AttributeError'') a) | Some v \<Rightarrow> return_ok v)"

text \<open>Lines 22 to 24: check and load the configuration, read its model, build it.\<close>

definition load_model ::
  "('m, 'r, 'w) cli_library \<Rightarrow> string \<Rightarrow> 'w cli_state \<Rightarrow> (exn + 'm) \<times> 'w cli_state" where
  "load_model L m_cfg =
     then_do (cli_extern (Call_check_yaml m_cfg) (check_yaml L m_cfg)) (\<lambda>file.
     then_do (cli_extern (Call_yaml_load file) (yaml_load L file)) (\<lambda>m_overrides.
     then_do (subscript m_overrides ''model'') (\<lambda>m_model_file.
       cli_extern (Call_new_YOLO m_model_file) (new_YOLO L m_model_file))))"

text \<open>Lines 26 to 33: the \<open>if\<close>/\<open>elif\<close> chain on the mode; no \<open>else\<close>.\<close>

definition dispatch ::
  "('m, 'r, 'w) cli_library \<Rightarrow> 'm \<Rightarrow> string \<Rightarrow> string
     \<Rightarrow> 'w cli_state \<Rightarrow> (exn + unit) \<times> 'w cli_state" where
  "dispatch L model m_cfg m_mode =
     (if m_mode = ''train''
      then then_do (cli_extern (Call_train m_cfg) (model_train L model m_cfg))
             (\<lambda>results. return_ok ())
      else if m_mode = ''predict''
      then then_do (cli_extern (Call_predict m_cfg) (model_predict L model m_cfg))
             (\<lambda>results. return_ok ())
      else if m_mode = ''val''
      then then_do (cli_extern (Call_model_val m_cfg) (model_val L model m_cfg))
             (\<lambda>results. return_ok ())
      else if m_mode = ''export''
      then then_do (cli_extern (Call_model_export m_cfg) (model_export L model m_cfg))
             (\<lambda>results. return_ok ())
      else return_ok ())"

text \<open>
  Lines 17 to 33.  \<open>None\<close>: the argument parser ended the process before anything
  else ran.
\<close>

definition main ::
  "('m, 'r, 'w) cli_library \<Rightarrow> (string \<Rightarrow> bool) \<Rightarrow> string list \<Rightarrow> 'w
     \<Rightarrow> ((exn + unit) \<times> 'w cli_state) option" where
  "main L arg_like argv w =
     (case parse_args arg_like argv of
        None \<Rightarrow> None
      | Some args \<Rightarrow>
          Some (then_do (getattr args ''cfg'') (\<lambda>m_cfg.
                then_do (getattr args ''mode'') (\<lambda>m_mode.
                then_do (load_model L m_cfg) (\<lambda>model.
                  dispatch L model m_cfg m_mode)))
                \<lparr>cli_calls = [], cli_world = w\<rparr>))"

text \<open>The four calls that are model operations.\<close>

fun model_operation :: "cli_call \<Rightarrow> bool" where
  "model_operation (Call_train c) = True"
| "model_operation (Call_predict c) = True"
| "model_operation (Call_model_val c) = True"
| "model_operation (Call_model_export c) = True"
| "model_operation c = False"

section \<open>A sample library\<close>

text \<open>
  A small library to run the definitions on: model objects are their paths, the outside
  world is a counter of the calls made.  The table has the twelve formats of the module's
  documentation, in its order; file suffixes are read off the documented file names and
  the two support flags are sample data.  Export works for TorchScript and ONNX only,
  validation returns fixed numbers, and the material is used by the closed examples
  below only.
\<close>

definition sample_formats :: "format_row list" where
  "sample_formats =
     [\<lparr>fmt_name = ''PyTorch'', fmt_format = ''-'', fmt_suffix = ''.pt'',
        fmt_cpu = True, fmt_gpu = True\<rparr>,
      \<lparr>fmt_name = ''TorchScript'', fmt_format = ''torchscript'', fmt_suffix = ''.torchscript'',
        fmt_cpu = True, fmt_gpu = True\<rparr>,
      \<lparr>fmt_name = ''ONNX'', fmt_format = ''onnx'', fmt_suffix = ''.onnx'',
        fmt_cpu = True, fmt_gpu = True\<rparr>,
      \<lparr>fmt_name = ''OpenVINO'', fmt_format = ''openvino'', fmt_suffix = ''_openvino_model'',
        fmt_cpu = True, fmt_gpu = False\<rparr>,
      \<lparr>fmt_name = ''TensorRT'', fmt_format = ''engine'', fmt_suffix = ''.engine'',
        fmt_cpu = False, fmt_gpu = True\<rparr>,
      \<lparr>fmt_name = ''CoreML'', fmt_format = ''coreml'', fmt_suffix = ''.mlmodel'',
        fmt_cpu = True, fmt_gpu = False\<rparr>,
      \<lparr>fmt_name = ''TensorFlow SavedModel'', fmt_format = ''saved_model'',
        fmt_suffix = ''_saved_model'', fmt_cpu = True, fmt_gpu = True\<rparr>,
      \<lparr>fmt_name = ''TensorFlow GraphDef'', fmt_format = ''pb'', fmt_suffix = ''.pb'',
        fmt_cpu = True, fmt_gpu = True\<rparr>,
      \<lparr>fmt_name = ''TensorFlow Lite'', fmt_format = ''tflite'', fmt_suffix = ''.tflite'',
        fmt_cpu = True, fmt_gpu = False\<rparr>,
      \<lparr>fmt_name = ''TensorFlow Edge TPU'', fmt_format = ''edgetpu'',
        fmt_suffix = ''_edgetpu.tflite'', fmt_cpu = False, fmt_gpu = False\<rparr>,
      \<lparr>fmt_name = ''TensorFlow.js'', fmt_format = ''tfjs'', fmt_suffix = ''_web_model'',
        fmt_cpu = False, fmt_gpu = False\<rparr>,
      \<lparr>fmt_name = ''PaddlePaddle'', fmt_format = ''paddle'', fmt_suffix = ''_paddle_model'',
        fmt_cpu = True, fmt_gpu = True\<rparr>]"

definition sample_device :: "dev_arg \<Rightarrow> exn + torch_dev" where
  "sample_device a =
     (case a of
        DevInt n \<Rightarrow> Inr \<lparr>dev_type = ''cuda'', dev_index = Some n\<rparr>
      | DevStr d \<Rightarrow>
          if d = ''cpu'' then Inr \<lparr>dev_type = ''cpu'', dev_index = None\<rparr>
          else if d = ''cuda'' then Inr \<lparr>dev_type = ''cuda'', dev_index = None\<rparr>
          else Inl (Exn (OtherError ''RuntimeError'') ''Expected one of cpu, cuda, ...''))"

definition sample_export ::
  "path \<Rightarrow> nat \<Rightarrow> string \<Rightarrow> bool \<Rightarrow> torch_dev \<Rightarrow> nat \<Rightarrow> (exn + path) \<times> nat" where
  "sample_export m imgsz fmt half d w =
     (if fmt = ''torchscript'' then (Inr (Some ''yolov8n.torchscript''), Suc w)
      else if fmt = ''onnx'' then (Inr (Some ''yolov8n.onnx''), Suc w)
      else (Inl (Exn (OtherError ''ModuleNotFoundError'') ''no exporter installed''), Suc w))"

definition sample_val ::
  "path \<Rightarrow> string \<Rightarrow> nat \<Rightarrow> torch_dev \<Rightarrow> bool \<Rightarrow> nat \<Rightarrow> (exn + val_results) \<times> nat" where
  "sample_val m data imgsz d half w =
     (Inr \<lparr>results_dict = [''metrics/mAP50-95(B)'' \<mapsto> PNum (37 / 100)],
           results_speed = [''inference'' \<mapsto> PNum (25 / 2)]\<rparr>, Suc w)"

definition sample_eval :: "string \<Rightarrow> nat \<Rightarrow> (exn + pyval) \<times> nat" where
  "sample_eval expr w =
     (if expr = ''0.29'' then (Inr (PNum (29 / 100)), Suc w)
      else if expr = ''0.37'' then (Inr (PNum (37 / 100)), Suc w)
      else (Inl (Exn (OtherError ''SyntaxError'') ''invalid syntax''), Suc w))"

definition sample_library :: "(path, nat) library" where
  "sample_library =
     \<lparr>export_formats = sample_formats,
      platform_system = ''Linux'',
      torch_device = sample_device,
      YOLO = (\<lambda>p w. (Inr p, Suc w)),
      ckpt_path = (\<lambda>m. m),
      task = (\<lambda>m. ''detect''),
      export = sample_export,
      val = sample_val,
      file_size = (\<lambda>p w. (Inr (31 / 5), Suc w)),
      check_yolo = (\<lambda>d w. (Inr (), Suc w)),
      py_eval = sample_eval,
      py_round = (\<lambda>r n. r),
      py_str = (\<lambda>v. if v = PNum (29 / 100) then ''0.29'' else if v = PNum (37 / 100) then ''0.37''
                       else ''?''),
      path_name = (\<lambda>p. p)\<rparr>"

text \<open>
  Two short tables for whole runs on the CPU: PyTorch is measured in both; TensorRT has
  no CPU support, so it fails with an \<open>AssertionError\<close>; the export to OpenVINO fails
  with another exception.
\<close>

definition sample_pair :: "(path, nat) library" where
  "sample_pair =
     sample_library\<lparr>export_formats :=
       [\<lparr>fmt_name = ''PyTorch'', fmt_format = ''-'', fmt_suffix = ''.pt'',
          fmt_cpu = True, fmt_gpu = True\<rparr>,
        \<lparr>fmt_name = ''TensorRT'', fmt_format = ''engine'', fmt_suffix = ''.engine'',
          fmt_cpu = False, fmt_gpu = True\<rparr>]\<rparr>"

definition sample_pair_broken :: "(path, nat) library" where
  "sample_pair_broken =
     sample_library\<lparr>export_formats :=
       [\<lparr>fmt_name = ''PyTorch'', fmt_format = ''-'', fmt_suffix = ''.pt'',
          fmt_cpu = True, fmt_gpu = True\<rparr>,
        \<lparr>fmt_name = ''OpenVINO'', fmt_format = ''openvino'',
          fmt_suffix = ''_openvino_model'', fmt_cpu = True, fmt_gpu = False\<rparr>]\<rparr>"

text \<open>
  A library in which the user interrupts the export: a table of PyTorch and ONNX, where
  every export raises \<open>KeyboardInterrupt\<close>.
\<close>

definition sample_interrupted :: "(path, nat) library" where
  "sample_interrupted =
     sample_library\<lparr>export_formats :=
       [\<lparr>fmt_name = ''PyTorch'', fmt_format = ''-'', fmt_suffix = ''.pt'',
          fmt_cpu = True, fmt_gpu = True\<rparr>,
        \<lparr>fmt_name = ''ONNX'', fmt_format = ''onnx'', fmt_suffix = ''.onnx'',
          fmt_cpu = True, fmt_gpu = True\<rparr>],
       export := (\<lambda>m imgsz fmt half d w. (Inl (Exn KeyboardInterrupt []), Suc w))\<rparr>"

text \<open>
  The data frame of the run on \<open>sample_pair\<close> and the state in which its report
  ends, whatever \<open>hard_fail\<close> is.
\<close>

definition sample_pair_frame :: dataframe where
  "sample_pair_frame =
     \<lparr>df_columns = [''Format'', status_header, ''Size (MB)'', ''metrics/mAP50-95(B)'',
                     ''Inference time (ms/im)''],
      df_rows =
        [\<lparr>row_name = ''PyTorch'', row_status = Passed, row_size = Some (31 / 5),
           row_metric = Some (37 / 100), row_speed = Some (25 / 2)\<rparr>,
         \<lparr>row_name = ''TensorRT'', row_status = Failed, row_size = None,
           row_metric = None, row_speed = None\<rparr>]\<rparr>"

definition sample_pair_state :: "nat bench_state" where
  "sample_pair_state =
     \<lparr>y_rows = df_rows sample_pair_frame,
      data_var = Some ''coco128.yaml'', key_var = Some ''metrics/mAP50-95(B)'',
      logged =
        [Warning_failure ''TensorRT'' (Exn AssertionError ''inference not supported on CPU''),
         Info_newline, Info_complete ''yolov8n.pt'' ''coco128.yaml'' 640,
         Info_table (df_columns sample_pair_frame) (df_rows sample_pair_frame)],
      calls = [Call_YOLO (Some ''yolov8n.pt''), Call_val ''coco128.yaml'',
               Call_file_size (Some ''yolov8n.pt''), Call_check_yolo],
      world = 4\<rparr>"

text \<open>
  For the command-line script: the configuration file names the model
  \<open>yolov8n.pt\<close>, every call succeeds and advances the counter, and a token that
  starts with a dash and names no option is an argument when it is \<open>-1\<close> or holds a
  space.
\<close>

definition sample_arg_like :: "string \<Rightarrow> bool" where
  "sample_arg_like t = (t = ''-1'' \<or> CHR '' '' \<in> set t)"

definition sample_cli :: "(pyval, unit, nat) cli_library" where
  "sample_cli =
     \<lparr>check_yaml = (\<lambda>f w. (Inr f, Suc w)),
      yaml_load = (\<lambda>f w. (Inr [''model'' \<mapsto> PStr ''yolov8n.pt'', ''epochs'' \<mapsto> PNum 3], Suc w)),
      new_YOLO = (\<lambda>f w. (Inr f, Suc w)),
      model_train = (\<lambda>m c w. (Inr (), Suc w)),
      model_predict = (\<lambda>m c w. (Inr (), Suc w)),
      model_val = (\<lambda>m c w. (Inr (), Suc w)),
      model_export = (\<lambda>m c w. (Inr (), Suc w))\<rparr>"

section \<open>Facts about one iteration\<close>

lemma check_supported_state: "snd (check_supported L d i r s) = s"
  by (simp add: check_supported_def then_do_def py_assert_def return_ok_def raise_def)

lemma check_supported_class:
  "check_supported L d i r s = (Inl e, s') \<Longrightarrow> exn_class e = AssertionError"
  by (auto simp: check_supported_def then_do_def py_assert_def return_ok_def raise_def
      split: if_splits)

lemma extern_frame:
  "extern c f s = (res, s') \<Longrightarrow>
     y_rows s' = y_rows s \<and> logged s' = logged s \<and> data_var s' = data_var s \<and> key_var s' = key_var s"
  by (auto simp: extern_def split: prod.splits)

lemma export_step_frame:
  "export_step L model imgsz half device r s = (res, s') \<Longrightarrow>
     y_rows s' = y_rows s \<and> logged s' = logged s \<and> data_var s' = data_var s \<and> key_var s' = key_var s"
  by (auto simp: export_step_def then_do_def py_assert_def return_ok_def raise_def extern_def
      split: if_splits prod.splits sum.splits)

lemma select_data_frame:
  "y_rows (select_data t s) = y_rows s \<and> logged (select_data t s) = logged s
   \<and> calls (select_data t s) = calls s \<and> world (select_data t s) = world s"
  by (simp add: select_data_def)


lemma measured_row_frame:
  "measured_row L name filename metric sp s = (res, s') \<Longrightarrow>
     y_rows s' = y_rows s \<and> logged s' = logged s \<and> data_var s' = data_var s \<and> key_var s' = key_var s"
  by (auto simp: measured_row_def then_do_def return_ok_def raise_def extern_def round_val_def
      split: if_splits prod.splits sum.splits pyval.splits)


lemma check_supported_same: "check_supported L d i r s = (res, s') \<Longrightarrow> s' = s"
  using check_supported_state [of L d i r s] by simp




lemma assertion_is_Exception: "exn_class e = AssertionError \<Longrightarrow> isinstance_Exception e"
  by (simp add: isinstance_Exception_def)

lemma bench_iter_raised:
  "attempt L model imgsz half device i r s = (Inl e, s') \<Longrightarrow> isinstance_Exception e \<Longrightarrow>
     bench_iter L model imgsz half device hard_fail (i, r) s =
       (if truthy hard_fail \<and> exn_class e \<noteq> AssertionError
        then (Inl (Exn AssertionError
                (''Benchmark --hard-fail for '' @ fmt_name r @ '': '' @ exn_msg e)), s')
        else (Inr (), s'\<lparr>logged := logged s' @ [Warning_failure (fmt_name r) e],
                         y_rows := y_rows s' @
                           [\<lparr>row_name = fmt_name r, row_status = Failed, row_size = None,
                             row_metric = None, row_speed = None\<rparr>]\<rparr>))"
  by (simp add: bench_iter_def then_do_def py_assert_def return_ok_def raise_def
      failed_row_def)

lemma bench_iter_not_caught:
  "attempt L model imgsz half device i r s = (Inl e, s') \<Longrightarrow> \<not> isinstance_Exception e \<Longrightarrow>
     bench_iter L model imgsz half device hard_fail (i, r) s = (Inl e, s')"
  by (simp add: bench_iter_def)

lemma bench_iter_finished:
  "attempt L model imgsz half device i r s = (Inr row, s') \<Longrightarrow>
     bench_iter L model imgsz half device hard_fail (i, r) s =
       (Inr (), s'\<lparr>y_rows := y_rows s' @ [row]\<rparr>)"
  by (simp add: bench_iter_def)

lemma bench_loop_step:
  "bench_iter L model imgsz half device hard_fail ir s = (Inr (), s') \<Longrightarrow>
     bench_loop L model imgsz half device hard_fail (ir # rest) s =
       bench_loop L model imgsz half device hard_fail rest s'"
  by simp

lemma bench_loop_single:
  "bench_iter L model imgsz half device hard_fail ir s = (Inr (), s') \<Longrightarrow>
     bench_loop L model imgsz half device hard_fail [ir] s = (Inr (), s')"
  by simp

lemma bench_loop_abort:
  "bench_iter L model imgsz half device hard_fail ir s = (Inl e, s') \<Longrightarrow>
     bench_loop L model imgsz half device hard_fail (ir # rest) s = (Inl e, s')"
  by simp







lemma bench_loop_escapes:
  assumes "\<not> truthy hard_fail"
  shows "bench_loop L model imgsz half device hard_fail rows s = (Inl e, s') \<Longrightarrow>
           \<not> isinstance_Exception e"
proof (induction rows arbitrary: s)
  case Nil
  then show ?case by simp
next
  case (Cons ir rows)
  obtain i r where ir: "ir = (i, r)" by (cases ir)
  obtain res s1 where it: "bench_iter L model imgsz half device hard_fail (i, r) s = (res, s1)"
    by (cases "bench_iter L model imgsz half device hard_fail (i, r) s")
  show ?case
  proof (cases res)
    case (Inl e1)
    with it ir Cons.prems have e1: "e1 = e" by simp
    obtain ares s2 where a: "attempt L model imgsz half device i r s = (ares, s2)"
      by (cases "attempt L model imgsz half device i r s")
    show ?thesis
    proof (cases ares)
      case (Inl e2)
      show ?thesis
      proof
        assume x: "isinstance_Exception e"
        show False
        proof (cases "isinstance_Exception e2")
          case True
          from a Inl have "attempt L model imgsz half device i r s = (Inl e2, s2)" by simp
          from bench_iter_raised [OF this True, of hard_fail] assms it \<open>res = Inl e1\<close>
          show False by simp
        next
          case False
          from a Inl have "attempt L model imgsz half device i r s = (Inl e2, s2)" by simp
          from bench_iter_not_caught [OF this False, of hard_fail] it \<open>res = Inl e1\<close> e1
          have "e2 = e" by simp
          with False x show False by simp
        qed
      qed
    next
      case (Inr row)
      with a have "attempt L model imgsz half device i r s = (Inr row, s2)" by simp
      from bench_iter_finished [OF this, of hard_fail] it \<open>res = Inl e1\<close>
      show ?thesis by simp
    qed
  next
    case (Inr u)
    with it ir Cons.prems
    have "bench_loop L model imgsz half device hard_fail rows s1 = (Inl e, s')" by simp
    from Cons.IH [OF this] show ?thesis .
  qed
qed

section \<open>Unsupported formats\<close>



section \<open>Hard-fail mode\<close>

text \<open>
  Claim C3.  With a true \<open>hard_fail\<close>, an exception of the \<open>try\<close> block whose
  class is not \<open>AssertionError\<close> ends the loop there, without the rows that remain
  being visited: an instance of \<open>Exception\<close> makes the assertion of the handler
  fail, so the loop ends with the \<open>AssertionError\<close> that names the format; any other
  exception is not received by the handler and ends the loop itself.  An
  \<open>AssertionError\<close> passes the handler's assertion: the warning is logged, the row
  that holds the format's name, the cross and \<open>None\<close> for size, metric and speed is
  appended, and the loop goes on.
\<close>

theorem hard_fail_escalates_all_but_assertions:
  assumes "truthy hard_fail"
    and "attempt L model imgsz half device i r s = (Inl e, s')"
  shows "(exn_class e \<noteq> AssertionError \<longrightarrow>
            bench_iter L model imgsz half device hard_fail (i, r) s =
              (Inl (if isinstance_Exception e
                    then Exn AssertionError
                           (''Benchmark --hard-fail for '' @ fmt_name r @ '': '' @ exn_msg e)
                    else e), s')
          \<and> bench_loop L model imgsz half device hard_fail ((i, r) # rest) s =
              (Inl (if isinstance_Exception e
                    then Exn AssertionError
                           (''Benchmark --hard-fail for '' @ fmt_name r @ '': '' @ exn_msg e)
                    else e), s'))
       \<and> (exn_class e = AssertionError \<longrightarrow>
            bench_iter L model imgsz half device hard_fail (i, r) s =
              (Inr (), s'\<lparr>logged := logged s' @ [Warning_failure (fmt_name r) e],
                          y_rows := y_rows s' @
                            [\<lparr>row_name = fmt_name r, row_status = Failed, row_size = None,
                              row_metric = None, row_speed = None\<rparr>]\<rparr>)
          \<and> bench_loop L model imgsz half device hard_fail [(i, r)] s =
              (Inr (), s'\<lparr>logged := logged s' @ [Warning_failure (fmt_name r) e],
                          y_rows := y_rows s' @
                            [\<lparr>row_name = fmt_name r, row_status = Failed, row_size = None,
                              row_metric = None, row_speed = None\<rparr>]\<rparr>)
          \<and> bench_loop L model imgsz half device hard_fail ((i, r) # rest) s =
              bench_loop L model imgsz half device hard_fail rest
                (s'\<lparr>logged := logged s' @ [Warning_failure (fmt_name r) e],
                    y_rows := y_rows s' @
                      [\<lparr>row_name = fmt_name r, row_status = Failed, row_size = None,
                        row_metric = None, row_speed = None\<rparr>]\<rparr>))"
proof (cases "exn_class e = AssertionError")
  case True
  have b: "bench_iter L model imgsz half device hard_fail (i, r) s =
             (Inr (), s'\<lparr>logged := logged s' @ [Warning_failure (fmt_name r) e],
                         y_rows := y_rows s' @
                           [\<lparr>row_name = fmt_name r, row_status = Failed, row_size = None,
                             row_metric = None, row_speed = None\<rparr>]\<rparr>)"
    using bench_iter_raised [OF assms(2) assertion_is_Exception [OF True], of hard_fail] True
    by simp
  from b have l1: "bench_loop L model imgsz half device hard_fail [(i, r)] s =
             (Inr (), s'\<lparr>logged := logged s' @ [Warning_failure (fmt_name r) e],
                         y_rows := y_rows s' @
                           [\<lparr>row_name = fmt_name r, row_status = Failed, row_size = None,
                             row_metric = None, row_speed = None\<rparr>]\<rparr>)"
    by (rule bench_loop_single)
  from b have l2: "bench_loop L model imgsz half device hard_fail ((i, r) # rest) s =
              bench_loop L model imgsz half device hard_fail rest
                (s'\<lparr>logged := logged s' @ [Warning_failure (fmt_name r) e],
                    y_rows := y_rows s' @
                      [\<lparr>row_name = fmt_name r, row_status = Failed, row_size = None,
                        row_metric = None, row_speed = None\<rparr>]\<rparr>)"
    by (rule bench_loop_step)
  from b l1 l2 True show ?thesis by simp
next
  case False
  have b: "bench_iter L model imgsz half device hard_fail (i, r) s =
              (Inl (if isinstance_Exception e
                    then Exn AssertionError
                           (''Benchmark --hard-fail for '' @ fmt_name r @ '': '' @ exn_msg e)
                    else e), s')"
  proof (cases "isinstance_Exception e")
    case True
    from bench_iter_raised [OF assms(2) True, of hard_fail] False assms(1) True
    show ?thesis by simp
  next
    case no: False
    from bench_iter_not_caught [OF assms(2) no, of hard_fail] no show ?thesis by simp
  qed
  from b have "bench_loop L model imgsz half device hard_fail ((i, r) # rest) s =
              (Inl (if isinstance_Exception e
                    then Exn AssertionError
                           (''Benchmark --hard-fail for '' @ fmt_name r @ '': '' @ exn_msg e)
                    else e), s')"
    by (rule bench_loop_abort)
  with b False show ?thesis by simp
qed

text \<open>
  With hard-fail mode on and on the CPU: the export of the OpenVINO row raises a
  \<open>ModuleNotFoundError\<close>, which ends the loop before the TensorRT row; the TensorRT
  row alone raises an \<open>AssertionError\<close> and is recorded as failed; an interrupted
  export ends the loop with the \<open>KeyboardInterrupt\<close> itself.
\<close>

theorem hard_fail_example:
  "bench_loop sample_library (Some ''yolov8n.pt'') 640 False
     \<lparr>dev_type = ''cpu'', dev_index = None\<rparr> (PBool True)
     [(3, \<lparr>fmt_name = ''OpenVINO'', fmt_format = ''openvino'', fmt_suffix = ''_openvino_model'',
           fmt_cpu = True, fmt_gpu = False\<rparr>),
      (4, \<lparr>fmt_name = ''TensorRT'', fmt_format = ''engine'', fmt_suffix = ''.engine'',
           fmt_cpu = False, fmt_gpu = True\<rparr>)]
     (init_state 0)
   = (Inl (Exn AssertionError ''Benchmark --hard-fail for OpenVINO: no exporter installed''),
      \<lparr>y_rows = [], data_var = None, key_var = None, logged = [],
       calls = [Call_export ''openvino''], world = 1\<rparr>)
   \<and> bench_iter sample_library (Some ''yolov8n.pt'') 640 False
     \<lparr>dev_type = ''cpu'', dev_index = None\<rparr> (PBool True)
     (4, \<lparr>fmt_name = ''TensorRT'', fmt_format = ''engine'', fmt_suffix = ''.engine'',
          fmt_cpu = False, fmt_gpu = True\<rparr>)
     (init_state 0)
   = (Inr (),
      \<lparr>y_rows = [\<lparr>row_name = ''TensorRT'', row_status = Failed, row_size = None,
                  row_metric = None, row_speed = None\<rparr>],
       data_var = None, key_var = None,
       logged = [Warning_failure ''TensorRT''
                   (Exn AssertionError ''inference not supported on CPU'')],
       calls = [], world = 0\<rparr>)
   \<and> bench_loop sample_interrupted (Some ''yolov8n.pt'') 640 False
     \<lparr>dev_type = ''cpu'', dev_index = None\<rparr> (PBool True)
     [(1, \<lparr>fmt_name = ''ONNX'', fmt_format = ''onnx'', fmt_suffix = ''.onnx'',
           fmt_cpu = True, fmt_gpu = True\<rparr>)]
     (init_state 0)
   = (Inl (Exn KeyboardInterrupt []),
      \<lparr>y_rows = [], data_var = None, key_var = None, logged = [],
       calls = [Call_export ''onnx''], world = 1\<rparr>)"
proof -
  let ?d = "\<lparr>dev_type = ''cpu'', dev_index = None\<rparr>"
  let ?o = "\<lparr>fmt_name = ''OpenVINO'', fmt_format = ''openvino'',
             fmt_suffix = ''_openvino_model'', fmt_cpu = True, fmt_gpu = False\<rparr>"
  let ?t = "\<lparr>fmt_name = ''TensorRT'', fmt_format = ''engine'', fmt_suffix = ''.engine'',
             fmt_cpu = False, fmt_gpu = True\<rparr>"
  let ?n = "\<lparr>fmt_name = ''ONNX'', fmt_format = ''onnx'', fmt_suffix = ''.onnx'',
             fmt_cpu = True, fmt_gpu = True\<rparr>"
  have t: "truthy (PBool True)" by simp
  have v1: "attempt sample_library (Some ''yolov8n.pt'') 640 False ?d 3 ?o (init_state 0)
             = (Inl (Exn (OtherError ''ModuleNotFoundError'') ''no exporter installed''),
                \<lparr>y_rows = [], data_var = None, key_var = None, logged = [],
                 calls = [Call_export ''openvino''], world = 1\<rparr>)"
    by (simp add: attempt_def check_supported_def export_step_def extern_def then_do_def
        py_assert_def raise_def return_ok_def sample_library_def sample_export_def
        init_state_def)
  have v2: "attempt sample_library (Some ''yolov8n.pt'') 640 False ?d 4 ?t (init_state 0)
             = (Inl (Exn AssertionError ''inference not supported on CPU''), init_state 0)"
    by (simp add: attempt_def check_supported_def then_do_def py_assert_def raise_def
        return_ok_def sample_library_def)
  have v3: "attempt sample_interrupted (Some ''yolov8n.pt'') 640 False ?d 1 ?n (init_state 0)
             = (Inl (Exn KeyboardInterrupt []),
                \<lparr>y_rows = [], data_var = None, key_var = None, logged = [],
                 calls = [Call_export ''onnx''], world = 1\<rparr>)"
    by (simp add: attempt_def check_supported_def export_step_def extern_def then_do_def
        py_assert_def raise_def return_ok_def sample_interrupted_def sample_library_def
        init_state_def)
  from hard_fail_escalates_all_but_assertions [OF t v1, of "[(4, ?t)]"]
  have c1: "bench_loop sample_library (Some ''yolov8n.pt'') 640 False ?d (PBool True)
              [(3, ?o), (4, ?t)] (init_state 0)
            = (Inl (Exn AssertionError
                 ''Benchmark --hard-fail for OpenVINO: no exporter installed''),
               \<lparr>y_rows = [], data_var = None, key_var = None, logged = [],
                calls = [Call_export ''openvino''], world = 1\<rparr>)"
    by (simp add: isinstance_Exception_def)
  from hard_fail_escalates_all_but_assertions [OF t v2, of "[]"]
  have c2: "bench_iter sample_library (Some ''yolov8n.pt'') 640 False ?d (PBool True) (4, ?t)
              (init_state 0)
            = (Inr (),
               \<lparr>y_rows = [\<lparr>row_name = ''TensorRT'', row_status = Failed, row_size = None,
                           row_metric = None, row_speed = None\<rparr>],
                data_var = None, key_var = None,
                logged = [Warning_failure ''TensorRT''
                            (Exn AssertionError ''inference not supported on CPU'')],
                calls = [], world = 0\<rparr>)"
    by (simp add: init_state_def)
  from hard_fail_escalates_all_but_assertions [OF t v3, of "[]"]
  have c3: "bench_loop sample_interrupted (Some ''yolov8n.pt'') 640 False ?d (PBool True)
              [(1, ?n)] (init_state 0)
            = (Inl (Exn KeyboardInterrupt []),
               \<lparr>y_rows = [], data_var = None, key_var = None, logged = [],
                calls = [Call_export ''onnx''], world = 1\<rparr>)"
    by (simp add: isinstance_Exception_def)
  from c1 c2 c3 show ?thesis by (intro conjI)
qed

section \<open>Failures without hard-fail mode\<close>

text \<open>
  Claim C6, as amended.  With a false \<open>hard_fail\<close>, an exception of the \<open>try\<close>
  block of a format that is an instance of \<open>Exception\<close> is caught: the iteration
  ends normally, having logged the warning and appended the row whose size, metric and
  speed are \<open>None\<close>, and the loop goes on with the next format.  An exception that
  is not an instance of \<open>Exception\<close> is not caught by line 79 and ends the loop.  So
  when a run of the loop ends with an exception, that exception is not an instance of
  \<open>Exception\<close>.
\<close>

theorem failures_are_caught_without_hard_fail:
  assumes "\<not> truthy hard_fail"
  shows "(attempt L model imgsz half device i r s = (Inl e, s') \<and> isinstance_Exception e \<longrightarrow>
            bench_iter L model imgsz half device hard_fail (i, r) s =
              (Inr (), s'\<lparr>logged := logged s' @ [Warning_failure (fmt_name r) e],
                          y_rows := y_rows s' @
                            [\<lparr>row_name = fmt_name r, row_status = Failed, row_size = None,
                              row_metric = None, row_speed = None\<rparr>]\<rparr>)
          \<and> bench_loop L model imgsz half device hard_fail [(i, r)] s =
              (Inr (), s'\<lparr>logged := logged s' @ [Warning_failure (fmt_name r) e],
                          y_rows := y_rows s' @
                            [\<lparr>row_name = fmt_name r, row_status = Failed, row_size = None,
                              row_metric = None, row_speed = None\<rparr>]\<rparr>)
          \<and> bench_loop L model imgsz half device hard_fail ((i, r) # rest) s =
              bench_loop L model imgsz half device hard_fail rest
                (s'\<lparr>logged := logged s' @ [Warning_failure (fmt_name r) e],
                    y_rows := y_rows s' @
                      [\<lparr>row_name = fmt_name r, row_status = Failed, row_size = None,
                        row_metric = None, row_speed = None\<rparr>]\<rparr>))
       \<and> (attempt L model imgsz half device i r s = (Inl e, s') \<and> \<not> isinstance_Exception e \<longrightarrow>
            bench_iter L model imgsz half device hard_fail (i, r) s = (Inl e, s')
          \<and> bench_loop L model imgsz half device hard_fail ((i, r) # rest) s = (Inl e, s'))
       \<and> (bench_loop L model imgsz half device hard_fail rows s0 = (Inl e0, s1) \<longrightarrow>
            \<not> isinstance_Exception e0)"
proof (intro conjI impI)
  assume h: "attempt L model imgsz half device i r s = (Inl e, s') \<and> isinstance_Exception e"
  then have a: "attempt L model imgsz half device i r s = (Inl e, s')"
    and x: "isinstance_Exception e" by simp_all
  show b: "bench_iter L model imgsz half device hard_fail (i, r) s =
              (Inr (), s'\<lparr>logged := logged s' @ [Warning_failure (fmt_name r) e],
                          y_rows := y_rows s' @
                            [\<lparr>row_name = fmt_name r, row_status = Failed, row_size = None,
                              row_metric = None, row_speed = None\<rparr>]\<rparr>)"
    using bench_iter_raised [OF a x, of hard_fail] assms by simp
  from b show "bench_loop L model imgsz half device hard_fail [(i, r)] s =
              (Inr (), s'\<lparr>logged := logged s' @ [Warning_failure (fmt_name r) e],
                          y_rows := y_rows s' @
                            [\<lparr>row_name = fmt_name r, row_status = Failed, row_size = None,
                              row_metric = None, row_speed = None\<rparr>]\<rparr>)"
    by (rule bench_loop_single)
  from b show "bench_loop L model imgsz half device hard_fail ((i, r) # rest) s =
              bench_loop L model imgsz half device hard_fail rest
                (s'\<lparr>logged := logged s' @ [Warning_failure (fmt_name r) e],
                    y_rows := y_rows s' @
                      [\<lparr>row_name = fmt_name r, row_status = Failed, row_size = None,
                        row_metric = None, row_speed = None\<rparr>]\<rparr>)"
    by (rule bench_loop_step)
next
  assume h: "attempt L model imgsz half device i r s = (Inl e, s') \<and> \<not> isinstance_Exception e"
  then have a: "attempt L model imgsz half device i r s = (Inl e, s')"
    and x: "\<not> isinstance_Exception e" by simp_all
  show b: "bench_iter L model imgsz half device hard_fail (i, r) s = (Inl e, s')"
    by (rule bench_iter_not_caught [OF a x])
  from b show "bench_loop L model imgsz half device hard_fail ((i, r) # rest) s = (Inl e, s')"
    by (rule bench_loop_abort)
next
  assume "bench_loop L model imgsz half device hard_fail rows s0 = (Inl e0, s1)"
  then show "\<not> isinstance_Exception e0"
    by (rule bench_loop_escapes [OF assms])
qed

text \<open>
  With hard-fail mode off, the failed export of the OpenVINO row becomes a warning and a
  row of \<open>None\<close>s, and an interrupted export of the ONNX row ends the loop.
\<close>

theorem caught_failure_example:
  "bench_iter sample_library (Some ''yolov8n.pt'') 640 False
     \<lparr>dev_type = ''cpu'', dev_index = None\<rparr> (PBool False)
     (3, \<lparr>fmt_name = ''OpenVINO'', fmt_format = ''openvino'', fmt_suffix = ''_openvino_model'',
          fmt_cpu = True, fmt_gpu = False\<rparr>)
     (init_state 0)
   = (Inr (),
      \<lparr>y_rows = [\<lparr>row_name = ''OpenVINO'', row_status = Failed, row_size = None,
                  row_metric = None, row_speed = None\<rparr>],
       data_var = None, key_var = None,
       logged = [Warning_failure ''OpenVINO''
                   (Exn (OtherError ''ModuleNotFoundError'') ''no exporter installed'')],
       calls = [Call_export ''openvino''], world = 1\<rparr>)
   \<and> bench_iter sample_interrupted (Some ''yolov8n.pt'') 640 False
     \<lparr>dev_type = ''cpu'', dev_index = None\<rparr> (PBool False)
     (1, \<lparr>fmt_name = ''ONNX'', fmt_format = ''onnx'', fmt_suffix = ''.onnx'',
          fmt_cpu = True, fmt_gpu = True\<rparr>)
     (init_state 0)
   = (Inl (Exn KeyboardInterrupt []),
      \<lparr>y_rows = [], data_var = None, key_var = None, logged = [],
       calls = [Call_export ''onnx''], world = 1\<rparr>)"
proof -
  let ?d = "\<lparr>dev_type = ''cpu'', dev_index = None\<rparr>"
  let ?o = "\<lparr>fmt_name = ''OpenVINO'', fmt_format = ''openvino'',
             fmt_suffix = ''_openvino_model'', fmt_cpu = True, fmt_gpu = False\<rparr>"
  let ?n = "\<lparr>fmt_name = ''ONNX'', fmt_format = ''onnx'', fmt_suffix = ''.onnx'',
             fmt_cpu = True, fmt_gpu = True\<rparr>"
  let ?e = "Exn (OtherError ''ModuleNotFoundError'') ''no exporter installed''"
  let ?s1 = "\<lparr>y_rows = [], data_var = None, key_var = None, logged = [],
              calls = [Call_export ''openvino''], world = (1::nat)\<rparr>"
  let ?s2 = "\<lparr>y_rows = [], data_var = None, key_var = None, logged = [],
              calls = [Call_export ''onnx''], world = (1::nat)\<rparr>"
  have f: "\<not> truthy (PBool False)" by simp
  have v1: "attempt sample_library (Some ''yolov8n.pt'') 640 False ?d 3 ?o (init_state 0)
             = (Inl ?e, ?s1) \<and> isinstance_Exception ?e"
    by (simp add: attempt_def check_supported_def export_step_def extern_def then_do_def
        py_assert_def raise_def return_ok_def sample_library_def sample_export_def
        init_state_def isinstance_Exception_def)
  have v2: "attempt sample_interrupted (Some ''yolov8n.pt'') 640 False ?d 1 ?n (init_state 0)
             = (Inl (Exn KeyboardInterrupt []), ?s2)
            \<and> \<not> isinstance_Exception (Exn KeyboardInterrupt [])"
    by (simp add: attempt_def check_supported_def export_step_def extern_def then_do_def
        py_assert_def raise_def return_ok_def sample_interrupted_def sample_library_def
        init_state_def isinstance_Exception_def)
  from failures_are_caught_without_hard_fail
         [OF f, of sample_library "Some ''yolov8n.pt''" 640 False ?d 3 ?o "init_state 0"
            ?e ?s1 "[]", THEN conjunct1] v1
  have "bench_iter sample_library (Some ''yolov8n.pt'') 640 False ?d (PBool False) (3, ?o)
          (init_state 0)
        = (Inr (), ?s1\<lparr>logged := logged ?s1 @ [Warning_failure (fmt_name ?o) ?e],
                       y_rows := y_rows ?s1 @
                         [\<lparr>row_name = fmt_name ?o, row_status = Failed, row_size = None,
                           row_metric = None, row_speed = None\<rparr>]\<rparr>)
        \<and> bench_loop sample_library (Some ''yolov8n.pt'') 640 False ?d (PBool False)
            [(3, ?o)] (init_state 0)
        = (Inr (), ?s1\<lparr>logged := logged ?s1 @ [Warning_failure (fmt_name ?o) ?e],
                       y_rows := y_rows ?s1 @
                         [\<lparr>row_name = fmt_name ?o, row_status = Failed, row_size = None,
                           row_metric = None, row_speed = None\<rparr>]\<rparr>)
        \<and> bench_loop sample_library (Some ''yolov8n.pt'') 640 False ?d (PBool False)
            ((3, ?o) # []) (init_state 0)
        = bench_loop sample_library (Some ''yolov8n.pt'') 640 False ?d (PBool False) []
            (?s1\<lparr>logged := logged ?s1 @ [Warning_failure (fmt_name ?o) ?e],
                 y_rows := y_rows ?s1 @
                   [\<lparr>row_name = fmt_name ?o, row_status = Failed, row_size = None,
                     row_metric = None, row_speed = None\<rparr>]\<rparr>)"
    by (rule mp)
  then have c1: "bench_iter sample_library (Some ''yolov8n.pt'') 640 False ?d (PBool False)
                   (3, ?o) (init_state 0)
        = (Inr (),
           \<lparr>y_rows = [\<lparr>row_name = ''OpenVINO'', row_status = Failed, row_size = None,
                       row_metric = None, row_speed = None\<rparr>],
            data_var = None, key_var = None,
            logged = [Warning_failure ''OpenVINO'' ?e],
            calls = [Call_export ''openvino''], world = 1\<rparr>)"
    by simp
  from failures_are_caught_without_hard_fail
         [OF f, of sample_interrupted "Some ''yolov8n.pt''" 640 False ?d 1 ?n "init_state 0"
            "Exn KeyboardInterrupt []" ?s2 "[]", THEN conjunct2, THEN conjunct1] v2
  have "bench_iter sample_interrupted (Some ''yolov8n.pt'') 640 False ?d (PBool False) (1, ?n)
          (init_state 0) = (Inl (Exn KeyboardInterrupt []), ?s2)
        \<and> bench_loop sample_interrupted (Some ''yolov8n.pt'') 640 False ?d (PBool False)
            ((1, ?n) # []) (init_state 0) = (Inl (Exn KeyboardInterrupt []), ?s2)"
    by (rule mp)
  then have c2: "bench_iter sample_interrupted (Some ''yolov8n.pt'') 640 False ?d (PBool False)
                   (1, ?n) (init_state 0) = (Inl (Exn KeyboardInterrupt []), ?s2)"
    by (rule conjunct1)
  from c1 c2 show ?thesis by (rule conjI)
qed

text \<open>
  Claim C6 as it is stated fails: with hard-fail mode off, the \<open>KeyboardInterrupt\<close>
  raised during the export of the ONNX row is not caught; the loop over the table ends
  with it, no warning is logged, and the list holds no row for ONNX.
\<close>

theorem interrupt_counterexample:
  "bench_loop sample_interrupted (Some ''yolov8n.pt'') 640 False
     \<lparr>dev_type = ''cpu'', dev_index = None\<rparr> (PBool False)
     (enumerate 0 (export_formats sample_interrupted)) (init_state 0)
   = (Inl (Exn KeyboardInterrupt []),
      \<lparr>y_rows = [\<lparr>row_name = ''PyTorch'', row_status = Passed, row_size = Some (31 / 5),
                  row_metric = Some (37 / 100), row_speed = Some (25 / 2)\<rparr>],
       data_var = Some ''coco128.yaml'', key_var = Some ''metrics/mAP50-95(B)'',
       logged = [],
       calls = [Call_val ''coco128.yaml'', Call_file_size (Some ''yolov8n.pt''),
                Call_export ''onnx''],
       world = 3\<rparr>)"
  by (simp add: bench_iter_def attempt_def check_supported_def export_step_def
      validate_step_def select_data_def measured_row_def round_val_def load_local_def
      subscript_def extern_def then_do_def py_assert_def raise_def return_ok_def
      failed_row_def str_of_path_def isinstance_Exception_def sample_interrupted_def
      sample_library_def sample_val_def init_state_def)

section \<open>The rows of the result list\<close>



section \<open>Facts about the report and the floor\<close>

lemma load_global_map: "load_global ''map'' s = (Inr (PFunction ''map''), s)"
  by (simp add: load_global_def module_globals_def builtin_functions_def return_ok_def)

lemma print_results_columns:
  assumes "print_results L model imgsz device s = (Inr df, s')"
  shows "\<exists>key ckpt_name data.
           key_var s = Some key \<and> key_var s' = Some key \<and> y_rows s' = y_rows s
           \<and> df = \<lparr>df_columns = [''Format'', status_header, ''Size (MB)'', key,
                                   ''Inference time (ms/im)''],
                    df_rows = y_rows s\<rparr>
           \<and> logged s' = logged s @ [Info_newline, Info_complete ckpt_name data imgsz,
                 Info_table [''Format'', status_header, ''Size (MB)'', key,
                             ''Inference time (ms/im)''] (y_rows s)]"
  using assms
  by (auto simp: print_results_def then_do_def log_entry_def extern_def load_global_map
      load_local_def DataFrame_def return_ok_def raise_def
      split: prod.splits sum.splits option.splits if_splits)

lemma print_results_never_reduced:
  assumes "print_results L model imgsz device s = (res, s')"
  shows "Info_first_two cs rs \<in> set (logged s') \<longrightarrow> Info_first_two cs rs \<in> set (logged s)"
  using assms
  by (auto simp: print_results_def then_do_def log_entry_def extern_def load_global_map
      load_local_def DataFrame_def return_ok_def raise_def
      split: prod.splits sum.splits option.splits if_splits)

lemma column_array_metric:
  assumes "key \<in> set metric_keys"
  shows "column_array \<lparr>df_columns = [''Format'', status_header, ''Size (MB)'', key,
                                      ''Inference time (ms/im)''], df_rows = rows\<rparr> key s
         = (Inr (map (\<lambda>r. opt_num (row_metric r)) rows), s)"
  using assms
  by (auto simp: metric_keys_def column_array_def status_header_def row_cells_def return_ok_def)

lemma py_gt_number:
  "as_number floor_v = Some fl \<Longrightarrow> py_gt (PNum m) floor_v = Inr (m > fl)"
  by (simp add: py_gt_def)

lemma all_above_metrics:
  assumes "as_number floor_v = Some fl"
  shows "all_above floor_v (map (\<lambda>r. opt_num (row_metric r)) rows)
         = Inr (\<forall>r\<in>set rows. \<forall>m. row_metric r = Some m \<longrightarrow> m > fl)"
proof (induction rows)
  case Nil
  show ?case by simp
next
  case (Cons r rows)
  show ?case
  proof (cases "row_metric r")
    case None
    with Cons show ?thesis by (simp add: opt_num_def notna_def)
  next
    case (Some m)
    with Cons py_gt_number [OF assms, of m] show ?thesis
      by (simp add: opt_num_def notna_def)
  qed
qed

lemma floor_check_string:
  assumes "expr \<noteq> []"
    and "key \<in> set metric_keys"
    and "key_var s = Some key"
    and "py_eval L expr (world s) = (Inr floor_v, w2)"
    and "as_number floor_v = Some fl"
  shows "floor_check L (PStr expr)
           \<lparr>df_columns = [''Format'', status_header, ''Size (MB)'', key,
                          ''Inference time (ms/im)''], df_rows = rows\<rparr> s
         = (if \<exists>r\<in>set rows. \<exists>m. row_metric r = Some m \<and> m \<le> fl
            then Inl (Exn AssertionError (''HARD FAIL: metric < floor '' @ py_str L floor_v))
            else Inr (),
            s\<lparr>calls := calls s @ [Call_eval expr], world := w2\<rparr>)"
proof -
  have a: "(\<forall>r\<in>set rows. \<forall>m. row_metric r = Some m \<longrightarrow> m > fl)
           = (\<not> (\<exists>r\<in>set rows. \<exists>m. row_metric r = Some m \<and> m \<le> fl))"
    by (auto simp: not_le)
  show ?thesis
    using assms(1,3,4)
    by (simp add: floor_check_def then_do_def load_local_def return_ok_def raise_def
        column_array_metric [OF assms(2)] extern_def all_above_metrics [OF assms(5)]
        py_assert_def a)
qed

lemma floor_check_not_string:
  "\<not> (truthy hard_fail \<and> isinstance_str hard_fail) \<Longrightarrow> floor_check L hard_fail df s = (Inr (), s)"
  by (auto simp: floor_check_def return_ok_def)

lemma select_data_key:
  "(\<forall>k. key_var s = Some k \<longrightarrow> k \<in> set metric_keys) \<Longrightarrow>
     (\<forall>k. key_var (select_data t s) = Some k \<longrightarrow> k \<in> set metric_keys)"
  by (simp add: select_data_def metric_keys_def)

lemma validate_step_key_same:
  "validate_step L model exported imgsz half device s = (res, s') \<Longrightarrow>
     key_var s' = key_var (select_data (task L model) s)"
  by (auto simp: validate_step_def then_do_def return_ok_def raise_def extern_def
      load_local_def subscript_def
      split: if_splits prod.splits sum.splits option.splits)

lemma attempt_key:
  assumes "attempt L model imgsz half device i r s = (res, s')"
    and "\<forall>k. key_var s = Some k \<longrightarrow> k \<in> set metric_keys"
  shows "\<forall>k. key_var s' = Some k \<longrightarrow> k \<in> set metric_keys"
proof -
  have "key_var s' = key_var s \<or> key_var s' = key_var (select_data (task L model) s)"
    using assms(1)
    unfolding attempt_def then_do_def
    by (auto split: prod.splits sum.splits
        dest!: check_supported_same export_step_frame validate_step_key_same
          measured_row_frame
        simp: select_data_def)
  with assms(2) select_data_key [OF assms(2), of "task L model"] show ?thesis by auto
qed

lemma bench_iter_key:
  assumes "bench_iter L model imgsz half device hard_fail ir s = (res, s')"
    and "\<forall>k. key_var s = Some k \<longrightarrow> k \<in> set metric_keys"
  shows "\<forall>k. key_var s' = Some k \<longrightarrow> k \<in> set metric_keys"
proof (cases "attempt L model imgsz half device (fst ir) (snd ir) s")
  case (Pair ares s1)
  from attempt_key [OF Pair assms(2)]
  have k: "\<forall>k. key_var s1 = Some k \<longrightarrow> k \<in> set metric_keys" .
  from assms(1) Pair have "key_var s' = key_var s1"
    by (auto simp: bench_iter_def then_do_def py_assert_def return_ok_def raise_def
        split: sum.splits if_splits)
  with k show ?thesis by simp
qed

lemma bench_loop_key:
  "bench_loop L model imgsz half device hard_fail rows s = (res, s') \<Longrightarrow>
     \<forall>k. key_var s = Some k \<longrightarrow> k \<in> set metric_keys \<Longrightarrow>
     \<forall>k. key_var s' = Some k \<longrightarrow> k \<in> set metric_keys"
proof (induction rows arbitrary: s)
  case Nil
  then show ?case by simp
next
  case (Cons ir rows)
  obtain r1 s1 where it: "bench_iter L model imgsz half device hard_fail ir s = (r1, s1)"
    by (cases "bench_iter L model imgsz half device hard_fail ir s")
  from bench_iter_key [OF it Cons.prems(2)]
  have k: "\<forall>k. key_var s1 = Some k \<longrightarrow> k \<in> set metric_keys" .
  show ?case
  proof (cases r1)
    case (Inl e)
    with it Cons.prems(1) have "s' = s1" by simp
    with k show ?thesis by simp
  next
    case (Inr u)
    with it Cons.prems(1)
    have "bench_loop L model imgsz half device hard_fail rows s1 = (res, s')" by simp
    from Cons.IH [OF this k] show ?thesis .
  qed
qed

lemma benchmarks_report_frame:
  assumes "benchmarks_report L model imgsz half device hard_fail (init_state w) = (Inr df, s1)"
  shows "\<exists>key.
           key \<in> set metric_keys \<and> key_var s1 = Some key
           \<and> df = \<lparr>df_columns = [''Format'', status_header, ''Size (MB)'', key,
                                   ''Inference time (ms/im)''],
                    df_rows = y_rows s1\<rparr>
           \<and> last (logged s1)
               = Info_table [''Format'', status_header, ''Size (MB)'', key,
                             ''Inference time (ms/im)''] (y_rows s1)"
proof -
  from assms obtain dev m s2 s3 where
    y: "extern (Call_YOLO model) (YOLO L model) (init_state w) = (Inr m, s2)"
    and l: "bench_loop L m imgsz half dev hard_fail (enumerate 0 (export_formats L)) s2
              = (Inr (), s3)"
    and p: "print_results L m imgsz dev s3 = (Inr df, s1)"
    by (auto simp: benchmarks_report_def then_do_def return_ok_def raise_def
        split: sum.splits prod.splits)
  from y have "key_var s2 = None"
    by (auto simp: extern_def init_state_def split: prod.splits)
  then have "\<forall>k. key_var s2 = Some k \<longrightarrow> k \<in> set metric_keys" by simp
  from bench_loop_key [OF l this]
  have k3: "\<forall>k. key_var s3 = Some k \<longrightarrow> k \<in> set metric_keys" .
  from print_results_columns [OF p] show ?thesis
  proof (elim exE conjE)
    fix key ckpt_name data
    assume 1: "key_var s3 = Some key" and 2: "key_var s1 = Some key"
      and 3: "y_rows s1 = y_rows s3"
      and 4: "df = \<lparr>df_columns = [''Format'', status_header, ''Size (MB)'', key,
                                   ''Inference time (ms/im)''],
                    df_rows = y_rows s3\<rparr>"
      and 5: "logged s1 = logged s3 @ [Info_newline, Info_complete ckpt_name data imgsz,
                 Info_table [''Format'', status_header, ''Size (MB)'', key,
                             ''Inference time (ms/im)''] (y_rows s3)]"
    from k3 1 have "key \<in> set metric_keys" by simp
    with 2 3 4 5 show ?thesis by simp
  qed
qed

lemma metric_at_or_below_conv:
  "(\<exists>r\<in>set rows. \<exists>m. row_metric r = Some m \<and> m \<le> fl)
   = list_ex (\<lambda>r. case row_metric r of None \<Rightarrow> False | Some m \<Rightarrow> m \<le> fl) rows"
  by (auto simp: list_ex_iff split: option.splits)

lemmas run_defs =
  run_benchmarks_def benchmarks_report_def print_results_def floor_check_def
  bench_iter_def attempt_def check_supported_def export_step_def
  validate_step_def select_data_def measured_row_def round_val_def load_local_def
  subscript_def extern_def log_entry_def DataFrame_def column_array_def row_cells_def
  opt_num_def notna_def py_gt_def status_header_def
  then_do_def py_assert_def raise_def return_ok_def failed_row_def str_of_path_def
  isnumeric_def init_state_def load_global_map isinstance_Exception_def

lemmas sample_defs =
  sample_pair_def sample_pair_broken_def sample_library_def sample_device_def
  sample_export_def sample_val_def sample_eval_def sample_interrupted_def

lemma sample_pair_report:
  "hard_fail = PStr ''0.37'' \<or> hard_fail = PStr ''0.29'' \<or> hard_fail = PBool True \<Longrightarrow>
     benchmarks_report sample_pair (Some ''yolov8n.pt'') 640 False ''cpu'' hard_fail
       (init_state 0) = (Inr sample_pair_frame, sample_pair_state)"
  by (auto simp: run_defs sample_defs sample_pair_frame_def sample_pair_state_def)

section \<open>The floor on the metrics\<close>

text \<open>
  Claim C2, as amended.  Let the hard-fail argument be a non-empty string, let the loop
  end without an exception and the report be printed (the last entry of the log is then
  the table of all rows), and let the string evaluate to a number.  Then the run ends
  with the \<open>AssertionError\<close> of the floor exactly when some row has a metric that is
  not \<open>None\<close> and is at or below that number; otherwise it ends without an
  exception.  In both cases nothing but the evaluation of the string happens after the
  report.
\<close>

theorem floor_rejects_iff_metric_at_or_below:
  assumes "expr \<noteq> []"
    and "benchmarks_report L model imgsz half device (PStr expr) (init_state w) = (Inr df, s1)"
    and "py_eval L expr (world s1) = (Inr floor_v, w2)"
    and "as_number floor_v = Some fl"
  shows "run_benchmarks L model imgsz half device (PStr expr) w
         = (if \<exists>r\<in>set (y_rows s1). \<exists>m. row_metric r = Some m \<and> m \<le> fl
            then Inl (Exn AssertionError (''HARD FAIL: metric < floor '' @ py_str L floor_v))
            else Inr (),
            s1\<lparr>calls := calls s1 @ [Call_eval expr], world := w2\<rparr>)
       \<and> (\<exists>cols. last (logged s1) = Info_table cols (y_rows s1))"
  using benchmarks_report_frame [OF assms(2)]
proof (elim exE conjE)
  fix key
  assume k: "key \<in> set metric_keys" and kv: "key_var s1 = Some key"
    and d: "df = \<lparr>df_columns = [''Format'', status_header, ''Size (MB)'', key,
                                 ''Inference time (ms/im)''], df_rows = y_rows s1\<rparr>"
    and l: "last (logged s1) = Info_table [''Format'', status_header, ''Size (MB)'', key,
                                 ''Inference time (ms/im)''] (y_rows s1)"
  have r: "run_benchmarks L model imgsz half device (PStr expr) w
             = floor_check L (PStr expr) df s1"
    using assms(2) by (simp add: run_benchmarks_def then_do_def)
  from l have p: "\<exists>cols. last (logged s1) = Info_table cols (y_rows s1)"
    by (rule exI)
  from r floor_check_string [OF assms(1) k kv assms(3) assms(4), of "y_rows s1"] d p
  show ?thesis by simp
qed

text \<open>
  On the sample table of PyTorch and TensorRT the one measured metric is 0.37: the floor
  \<open>0.37\<close> rejects the run, the floor \<open>0.29\<close> lets it end normally.
\<close>

theorem floor_example:
  "fst (run_benchmarks sample_pair (Some ''yolov8n.pt'') 640 False ''cpu'' (PStr ''0.37'') 0)
     = Inl (Exn AssertionError ''HARD FAIL: metric < floor 0.37'')
   \<and> fst (run_benchmarks sample_pair (Some ''yolov8n.pt'') 640 False ''cpu'' (PStr ''0.29'') 0)
     = Inr ()"
proof -
  have v1: "benchmarks_report sample_pair (Some ''yolov8n.pt'') 640 False ''cpu'' (PStr ''0.37'')
              (init_state 0) = (Inr sample_pair_frame, sample_pair_state)"
    by (simp add: sample_pair_report)
  have v2: "benchmarks_report sample_pair (Some ''yolov8n.pt'') 640 False ''cpu'' (PStr ''0.29'')
              (init_state 0) = (Inr sample_pair_frame, sample_pair_state)"
    by (simp add: sample_pair_report)
  have e1: "py_eval sample_pair ''0.37'' (world sample_pair_state) = (Inr (PNum (37 / 100)), 5)"
    by (simp add: sample_defs sample_pair_state_def)
  have e2: "py_eval sample_pair ''0.29'' (world sample_pair_state) = (Inr (PNum (29 / 100)), 5)"
    by (simp add: sample_defs sample_pair_state_def)
  have n1: "as_number (PNum (37 / 100)) = Some (37 / 100)" by simp
  have n2: "as_number (PNum (29 / 100)) = Some (29 / 100)" by simp
  have x1: "''0.37'' \<noteq> []" by simp
  have x2: "''0.29'' \<noteq> []" by simp
  have cond1: "\<exists>r\<in>set (y_rows sample_pair_state). \<exists>m. row_metric r = Some m \<and> m \<le> 37 / 100"
    by (simp only: metric_at_or_below_conv)
       (simp add: sample_pair_state_def sample_pair_frame_def)
  have cond2: "\<not> (\<exists>r\<in>set (y_rows sample_pair_state). \<exists>m. row_metric r = Some m
                     \<and> m \<le> 29 / 100)"
    by (simp only: metric_at_or_below_conv)
       (simp add: sample_pair_state_def sample_pair_frame_def)
  from floor_rejects_iff_metric_at_or_below [OF x1 v1 e1 n1, THEN conjunct1] cond1
  have "run_benchmarks sample_pair (Some ''yolov8n.pt'') 640 False ''cpu'' (PStr ''0.37'') 0
          = (Inl (Exn AssertionError
                (''HARD FAIL: metric < floor '' @ py_str sample_pair (PNum (37 / 100)))),
             sample_pair_state\<lparr>calls := calls sample_pair_state @ [Call_eval ''0.37''],
                                world := 5\<rparr>)"
    by (simp only: if_True)
  then have c1: "fst (run_benchmarks sample_pair (Some ''yolov8n.pt'') 640 False ''cpu''
                   (PStr ''0.37'') 0)
              = Inl (Exn AssertionError ''HARD FAIL: metric < floor 0.37'')"
    by (simp add: sample_defs)
  from floor_rejects_iff_metric_at_or_below [OF x2 v2 e2 n2, THEN conjunct1] cond2
  have "run_benchmarks sample_pair (Some ''yolov8n.pt'') 640 False ''cpu'' (PStr ''0.29'') 0
          = (Inr (), sample_pair_state\<lparr>calls := calls sample_pair_state @ [Call_eval ''0.29''],
                                        world := 5\<rparr>)"
    by (simp only: if_False)
  then have c2: "fst (run_benchmarks sample_pair (Some ''yolov8n.pt'') 640 False ''cpu''
                   (PStr ''0.29'') 0) = Inr ()"
    by simp
  from c1 c2 show ?thesis by (rule conjI)
qed

text \<open>
  Claim C2 as it is stated fails: with the floor \<open>0.29\<close> and the one measured metric
  0.37 above it, the run on the table of PyTorch and OpenVINO still ends with an
  exception, because in hard-fail mode the failed export ends the loop.
\<close>

theorem floor_counterexample:
  "fst (run_benchmarks sample_pair_broken (Some ''yolov8n.pt'') 640 False ''cpu''
          (PStr ''0.29'') 0)
     = Inl (Exn AssertionError ''Benchmark --hard-fail for OpenVINO: no exporter installed'')
   \<and> map row_metric (y_rows (snd (run_benchmarks sample_pair_broken (Some ''yolov8n.pt'') 640
          False ''cpu'' (PStr ''0.29'') 0))) = [Some (37 / 100)]
   \<and> fst (py_eval sample_pair_broken ''0.29'' 0) = Inr (PNum (29 / 100))
   \<and> (29 / 100 :: rat) < 37 / 100"
  by (simp add: run_defs sample_defs)

text \<open>
  Claim C4, as amended.  When the report has been printed: a hard-fail argument that is
  not a string, true or not, or that is the empty string, enforces no floor, and the
  run ends without an exception in the state the report left; a non-empty string that
  evaluates to a number is a floor, and the run ends with the \<open>AssertionError\<close> of
  the floor as soon as one row has a metric at or below it.
\<close>

theorem floor_enforced_only_for_strings:
  assumes "benchmarks_report L model imgsz half device hard_fail (init_state w) = (Inr df, s1)"
  shows "(\<not> (truthy hard_fail \<and> isinstance_str hard_fail) \<longrightarrow>
            run_benchmarks L model imgsz half device hard_fail w = (Inr (), s1))
       \<and> (hard_fail = PStr expr \<and> expr \<noteq> []
            \<and> py_eval L expr (world s1) = (Inr floor_v, w2) \<and> as_number floor_v = Some fl
            \<and> row \<in> set (y_rows s1) \<and> row_metric row = Some m \<and> m \<le> fl \<longrightarrow>
            fst (run_benchmarks L model imgsz half device hard_fail w)
              = Inl (Exn AssertionError (''HARD FAIL: metric < floor '' @ py_str L floor_v)))"
proof (intro conjI impI)
  assume "\<not> (truthy hard_fail \<and> isinstance_str hard_fail)"
  then have "floor_check L hard_fail df s1 = (Inr (), s1)"
    by (rule floor_check_not_string)
  with assms show "run_benchmarks L model imgsz half device hard_fail w = (Inr (), s1)"
    by (simp add: run_benchmarks_def then_do_def)
next
  assume a: "hard_fail = PStr expr \<and> expr \<noteq> []
            \<and> py_eval L expr (world s1) = (Inr floor_v, w2) \<and> as_number floor_v = Some fl
            \<and> row \<in> set (y_rows s1) \<and> row_metric row = Some m \<and> m \<le> fl"
  then have h: "hard_fail = PStr expr" and e: "expr \<noteq> []"
    and v: "py_eval L expr (world s1) = (Inr floor_v, w2)"
    and n: "as_number floor_v = Some fl"
    and x: "\<exists>r\<in>set (y_rows s1). \<exists>m. row_metric r = Some m \<and> m \<le> fl"
    by auto
  from assms h
  have b: "benchmarks_report L model imgsz half device (PStr expr) (init_state w) = (Inr df, s1)"
    by simp
  from benchmarks_report_frame [OF b]
  show "fst (run_benchmarks L model imgsz half device hard_fail w)
          = Inl (Exn AssertionError (''HARD FAIL: metric < floor '' @ py_str L floor_v))"
  proof (elim exE conjE)
    fix key
    assume k: "key \<in> set metric_keys" and kv: "key_var s1 = Some key"
      and d: "df = \<lparr>df_columns = [''Format'', status_header, ''Size (MB)'', key,
                                 ''Inference time (ms/im)''], df_rows = y_rows s1\<rparr>"
    have r: "run_benchmarks L model imgsz half device (PStr expr) w
             = floor_check L (PStr expr) df s1"
      using b by (simp add: run_benchmarks_def then_do_def)
    from r floor_check_string [OF e k kv v n, of "y_rows s1"] d x h
    show ?thesis by simp
  qed
qed

text \<open>
  On the sample table of PyTorch and TensorRT: with \<open>hard_fail=True\<close> the run ends
  normally in the state of the report; with the floor \<open>0.37\<close> it is rejected.
\<close>

theorem floor_only_for_strings_example:
  "run_benchmarks sample_pair (Some ''yolov8n.pt'') 640 False ''cpu'' (PBool True) 0
     = (Inr (), sample_pair_state)
   \<and> fst (run_benchmarks sample_pair (Some ''yolov8n.pt'') 640 False ''cpu'' (PStr ''0.37'') 0)
     = Inl (Exn AssertionError (''HARD FAIL: metric < floor '' @ ''0.37''))"
proof -
  have v1: "benchmarks_report sample_pair (Some ''yolov8n.pt'') 640 False ''cpu'' (PStr ''0.37'')
              (init_state 0) = (Inr sample_pair_frame, sample_pair_state)"
    by (simp add: sample_pair_report)
  have v3: "benchmarks_report sample_pair (Some ''yolov8n.pt'') 640 False ''cpu'' (PBool True)
              (init_state 0) = (Inr sample_pair_frame, sample_pair_state)"
    by (simp add: sample_pair_report)
  have b: "\<not> (truthy (PBool True) \<and> isinstance_str (PBool True))" by simp
  from floor_enforced_only_for_strings [OF v3, THEN conjunct1] b
  have c1: "run_benchmarks sample_pair (Some ''yolov8n.pt'') 640 False ''cpu'' (PBool True) 0
              = (Inr (), sample_pair_state)"
    by (rule mp)
  have a: "PStr ''0.37'' = PStr ''0.37'' \<and> ''0.37'' \<noteq> []
           \<and> py_eval sample_pair ''0.37'' (world sample_pair_state) = (Inr (PNum (37 / 100)), 5)
           \<and> as_number (PNum (37 / 100)) = Some (37 / 100)
           \<and> \<lparr>row_name = ''PyTorch'', row_status = Passed, row_size = Some (31 / 5),
                row_metric = Some (37 / 100), row_speed = Some (25 / 2)\<rparr>
               \<in> set (y_rows sample_pair_state)
           \<and> row_metric \<lparr>row_name = ''PyTorch'', row_status = Passed, row_size = Some (31 / 5),
                row_metric = Some (37 / 100), row_speed = Some (25 / 2)\<rparr> = Some (37 / 100)
           \<and> (37 / 100 :: rat) \<le> 37 / 100"
    by (simp add: sample_defs sample_pair_state_def sample_pair_frame_def)
  from floor_enforced_only_for_strings [OF v1, THEN conjunct2] a
  have "fst (run_benchmarks sample_pair (Some ''yolov8n.pt'') 640 False ''cpu'' (PStr ''0.37'') 0)
          = Inl (Exn AssertionError
               (''HARD FAIL: metric < floor '' @ py_str sample_pair (PNum (37 / 100))))"
    by (rule mp)
  then have c2: "fst (run_benchmarks sample_pair (Some ''yolov8n.pt'') 640 False ''cpu''
                        (PStr ''0.37'') 0)
                 = Inl (Exn AssertionError (''HARD FAIL: metric < floor '' @ ''0.37''))"
    by (simp add: sample_defs)
  from c1 c2 show ?thesis by (rule conjI)
qed

text \<open>
  Claim C4 as it is stated fails: \<open>True\<close> is a true value, and with it the run ends
  normally without any floor having been evaluated, whatever the metrics are.
\<close>

theorem boolean_hard_fail_counterexample:
  "truthy (PBool True)
   \<and> fst (run_benchmarks sample_pair (Some ''yolov8n.pt'') 640 False ''cpu'' (PBool True) 0)
       = Inr ()
   \<and> calls (snd (run_benchmarks sample_pair (Some ''yolov8n.pt'') 640 False ''cpu''
                    (PBool True) 0))
       = [Call_YOLO (Some ''yolov8n.pt''), Call_val ''coco128.yaml'',
          Call_file_size (Some ''yolov8n.pt''), Call_check_yolo]
   \<and> map row_metric (y_rows (snd (run_benchmarks sample_pair (Some ''yolov8n.pt'') 640 False
                    ''cpu'' (PBool True) 0)))
       = [Some (37 / 100), None]"
  by (simp add: run_defs sample_defs)

section \<open>The condition of the report\<close>

text \<open>
  Claim C7, as amended.  The two conditional expressions of the report test the name
  \<open>map\<close>.  The function never assigns it and the module never binds it, so it
  denotes the builtin function \<open>map\<close>, which is true.  In every state the condition
  has that same value: the report never prints the first two columns only, and a data
  frame that is built has the five columns and is logged whole.
\<close>

theorem report_condition_is_constant:
  "fst (load_global ''map'' s) = Inr (PFunction ''map'') \<and> truthy (PFunction ''map'')
   \<and> (print_results L model imgsz device s = (res, s') \<longrightarrow>
        (Info_first_two cs rs \<in> set (logged s') \<longrightarrow> Info_first_two cs rs \<in> set (logged s))
      \<and> (res = Inr df \<longrightarrow>
           (\<exists>key. df_columns df = [''Format'', status_header, ''Size (MB)'', key,
                                    ''Inference time (ms/im)''])
           \<and> last (logged s') = Info_table (df_columns df) (df_rows df)))"
proof (intro conjI impI)
  show "fst (load_global ''map'' s) = Inr (PFunction ''map'')"
    by (simp add: load_global_map)
  show "truthy (PFunction ''map'')" by simp
next
  assume p: "print_results L model imgsz device s = (res, s')"
    and "Info_first_two cs rs \<in> set (logged s')"
  with print_results_never_reduced [OF p, of cs rs]
  show "Info_first_two cs rs \<in> set (logged s)" by simp
next
  assume p: "print_results L model imgsz device s = (res, s')" and r: "res = Inr df"
  from p r have q: "print_results L model imgsz device s = (Inr df, s')" by simp
  from print_results_columns [OF q]
  show "\<exists>key. df_columns df = [''Format'', status_header, ''Size (MB)'', key,
                                    ''Inference time (ms/im)'']"
    by (elim exE conjE) simp
next
  assume p: "print_results L model imgsz device s = (res, s')" and r: "res = Inr df"
  from p r have q: "print_results L model imgsz device s = (Inr df, s')" by simp
  from print_results_columns [OF q]
  show "last (logged s') = Info_table (df_columns df) (df_rows df)"
    by (elim exE conjE) simp
qed

text \<open>
  In a state where \<open>data\<close> and \<open>key\<close> are bound and \<open>y\<close> is empty, the report
  ends with the table of five columns.
\<close>

theorem report_condition_example:
  "fst (load_global ''map'' (init_state (0::nat))) = Inr (PFunction ''map'')
   \<and> last (logged (snd (print_results sample_library (Some ''yolov8n.pt'') 640
         \<lparr>dev_type = ''cpu'', dev_index = None\<rparr>
         \<lparr>y_rows = [], data_var = Some ''coco128.yaml'',
          key_var = Some ''metrics/mAP50-95(B)'', logged = [], calls = [], world = 0\<rparr>)))
     = Info_table [''Format'', status_header, ''Size (MB)'', ''metrics/mAP50-95(B)'',
                   ''Inference time (ms/im)''] []"
proof -
  let ?S = "\<lparr>y_rows = [], data_var = Some ''coco128.yaml'',
             key_var = Some ''metrics/mAP50-95(B)'', logged = [], calls = [],
             world = (0::nat)\<rparr>"
  let ?D = "\<lparr>df_columns = [''Format'', status_header, ''Size (MB)'', ''metrics/mAP50-95(B)'',
                            ''Inference time (ms/im)''], df_rows = []\<rparr>"
  let ?P = "print_results sample_library (Some ''yolov8n.pt'') 640
              \<lparr>dev_type = ''cpu'', dev_index = None\<rparr> ?S"
  have v: "?P = (Inr ?D, snd ?P)"
    by (simp add: print_results_def then_do_def log_entry_def extern_def load_global_map
        load_local_def DataFrame_def return_ok_def raise_def sample_library_def)
  have c: "fst (load_global ''map'' (init_state (0::nat))) = Inr (PFunction ''map'')"
    using report_condition_is_constant [of "init_state (0::nat)" sample_library
        "Some ''yolov8n.pt''" 640 "\<lparr>dev_type = ''cpu'', dev_index = None\<rparr>"]
    by simp
  from report_condition_is_constant [of ?S sample_library "Some ''yolov8n.pt''" 640
      "\<lparr>dev_type = ''cpu'', dev_index = None\<rparr>" "Inr ?D" "snd ?P" "[]" "[]" ?D] v
  have "last (logged (snd ?P)) = Info_table (df_columns ?D) (df_rows ?D)"
    by simp
  with c show ?thesis by simp
qed

text \<open>
  Claim C7 as it is stated fails: the name \<open>map\<close> is not undefined; reading it
  raises no \<open>NameError\<close> and gives the builtin function.
\<close>

theorem map_is_a_builtin:
  "load_global ''map'' (init_state (0::nat)) = (Inr (PFunction ''map''), init_state 0)
   \<and> ''map'' \<in> set builtin_functions
   \<and> ''map'' \<notin> set run_benchmarks_locals
   \<and> ''map'' \<notin> set module_globals"
  by (simp add: load_global_map builtin_functions_def run_benchmarks_locals_def
      module_globals_def)

section \<open>Facts about the command-line script\<close>

lemma filter_single_mem: "filter P xs = [x] \<Longrightarrow> x \<in> set xs"
proof -
  assume "filter P xs = [x]"
  then have "x \<in> set (filter P xs)" by simp
  then show ?thesis by simp
qed

lemma classify_store_decl:
  assumes "classify arg_like decls t = Store d v"
  shows "\<exists>opt\<in>set (map arg_option decls). d = dest_of opt"
proof -
  obtain name ev where p: "partition_eq t = (name, ev)" by (cases "partition_eq t")
  have f: "\<And>opt. filter (prefix name) (''--help'' # map arg_option decls) = [opt] \<Longrightarrow>
             opt \<noteq> ''--help'' \<Longrightarrow> opt \<in> set (map arg_option decls)"
  proof -
    fix opt
    assume a: "filter (prefix name) (''--help'' # map arg_option decls) = [opt]"
      and b: "opt \<noteq> ''--help''"
    from filter_single_mem [OF a] b show "opt \<in> set (map arg_option decls)" by simp
  qed
  show ?thesis
  proof (cases "filter (prefix name) (''--help'' # map arg_option decls)")
    case Nil
    with assms p show ?thesis
      by (simp add: classify_def split: if_splits) blast+
  next
    case (Cons opt rest)
    show ?thesis
    proof (cases rest)
      case Nil
      with Cons f [of opt] assms p show ?thesis
        by (simp add: classify_def split: if_splits) blast+
    next
      case (Cons b rest')
      with \<open>filter (prefix name) (''--help'' # map arg_option decls) = opt # rest\<close> assms p
      show ?thesis
        by (simp add: classify_def split: if_splits) blast+
    qed
  qed
qed

lemma consume_Cons_cases:
  assumes "consume arg_like decls (t # ts) ns = Some ns'"
  obtains (attached) d v where "classify arg_like decls t = Store d (Some v)"
      and "consume arg_like decls ts (ns(d \<mapsto> v)) = Some ns'"
    | (separate) d u ts' where "classify arg_like decls t = Store d None"
      and "ts = u # ts'" and "classify arg_like decls u = Argument"
      and "consume arg_like decls ts' (ns(d \<mapsto> u)) = Some ns'"
proof (cases ts)
  case Nil
  with assms obtain d v where "classify arg_like decls t = Store d (Some v)"
    and "ns' = ns(d \<mapsto> v)"
    by (auto split: token_kind.splits option.splits)
  with Nil show ?thesis by (intro attached [of d v]) simp_all
next
  case (Cons u ts')
  show ?thesis
  proof (cases "classify arg_like decls t")
    case (Store d ov)
    show ?thesis
    proof (cases ov)
      case None
      with Store Cons assms have "classify arg_like decls u = Argument"
        and "consume arg_like decls ts' (ns(d \<mapsto> u)) = Some ns'"
        by (simp_all split: if_splits)
      with Store None Cons show ?thesis by (intro separate [of d u ts']) simp_all
    next
      case (Some v)
      with Store Cons assms
      have "consume arg_like decls ts (ns(d \<mapsto> v)) = Some ns'" by simp
      with Store Some show ?thesis by (intro attached [of d v]) simp_all
    qed
  qed (use assms Cons in simp_all)
qed

lemma consume_unchanged:
  "consume arg_like decls argv ns = Some ns' \<Longrightarrow>
     (\<forall>t\<in>set argv. \<forall>v. classify arg_like decls t \<noteq> Store d v) \<Longrightarrow> ns' d = ns d"
proof (induction "length argv" arbitrary: argv ns rule: less_induct)
  case less
  show ?case
  proof (cases argv)
    case Nil
    with less.prems(1) show ?thesis by simp
  next
    case (Cons t ts)
    from less.prems(1) [unfolded Cons] show ?thesis
    proof (cases rule: consume_Cons_cases)
      case (attached d' v)
      from attached(1) less.prems(2) Cons have n: "d' \<noteq> d" by auto
      from less.prems(2) Cons
      have r: "\<forall>t\<in>set ts. \<forall>v. classify arg_like decls t \<noteq> Store d v" by simp
      from Cons have "length ts < length argv" by simp
      from less.hyps [OF this attached(2) r] n show ?thesis by simp
    next
      case (separate d' u ts')
      from separate(1) less.prems(2) Cons have n: "d' \<noteq> d" by auto
      from less.prems(2) Cons separate(2)
      have r: "\<forall>t\<in>set ts'. \<forall>v. classify arg_like decls t \<noteq> Store d v" by simp
      from Cons separate(2) have "length ts' < length argv" by simp
      from less.hyps [OF this separate(4) r] n show ?thesis by simp
    qed
  qed
qed

lemma consume_tokens:
  "consume arg_like decls argv ns = Some ns' \<Longrightarrow>
     \<forall>t\<in>set argv. classify arg_like decls t = Argument
        \<or> (\<exists>d v. classify arg_like decls t = Store d v)"
proof (induction "length argv" arbitrary: argv ns rule: less_induct)
  case less
  show ?case
  proof (cases argv)
    case Nil
    then show ?thesis by simp
  next
    case (Cons t ts)
    from less.prems(1) [unfolded Cons] show ?thesis
    proof (cases rule: consume_Cons_cases)
      case (attached d' v)
      from Cons have "length ts < length argv" by simp
      from less.hyps [OF this attached(2)] attached(1) Cons show ?thesis by simp
    next
      case (separate d' u ts')
      from Cons separate(2) have "length ts' < length argv" by simp
      from less.hyps [OF this separate(4)] separate(1,2,3) Cons show ?thesis by simp
    qed
  qed
qed

lemma consume_dom:
  "consume arg_like decls argv ns = Some ns' \<Longrightarrow>
     dest_of ` set (map arg_option decls) \<subseteq> dom ns \<Longrightarrow> dom ns' = dom ns"
proof (induction "length argv" arbitrary: argv ns rule: less_induct)
  case less
  show ?case
  proof (cases argv)
    case Nil
    with less.prems(1) show ?thesis by simp
  next
    case (Cons t ts)
    from less.prems(1) [unfolded Cons] show ?thesis
    proof (cases rule: consume_Cons_cases)
      case (attached d' v)
      from classify_store_decl [OF attached(1)] less.prems(2) have "d' \<in> dom ns" by auto
      then have e: "dom (ns(d' \<mapsto> v)) = dom ns" by auto
      with less.prems(2) have s: "dest_of ` set (map arg_option decls) \<subseteq> dom (ns(d' \<mapsto> v))"
        by simp
      from Cons have "length ts < length argv" by simp
      from less.hyps [OF this attached(2) s] e show ?thesis by simp
    next
      case (separate d' u ts')
      from classify_store_decl [OF separate(1)] less.prems(2) have "d' \<in> dom ns" by auto
      then have e: "dom (ns(d' \<mapsto> u)) = dom ns" by auto
      with less.prems(2) have s: "dest_of ` set (map arg_option decls) \<subseteq> dom (ns(d' \<mapsto> u))"
        by simp
      from Cons separate(2) have "length ts' < length argv" by simp
      from less.hyps [OF this separate(4) s] e show ?thesis by simp
    qed
  qed
qed

lemma dest_of_script:
  "dest_of ''--mode'' = ''mode''" "dest_of ''--cfg'' = ''cfg''"
  by (simp_all add: dest_of_def)

lemma defaults_script:
  "defaults script_arguments = [''mode'' \<mapsto> ''train'', ''cfg'' \<mapsto> ''cfg.yaml'']"
  by (rule ext) (simp add: defaults_def script_arguments_def dest_of_script)

lemma classify_store_dest:
  assumes "classify arg_like script_arguments t = Store d v"
  shows "d = ''mode'' \<or> d = ''cfg''"
  using classify_store_decl [OF assms]
  by (auto simp: script_arguments_def dest_of_script)

lemma parse_args_dom:
  assumes "parse_args arg_like argv = Some ns"
  shows "dom ns = {''mode'', ''cfg''}"
proof -
  have d: "dom (defaults script_arguments) = {''mode'', ''cfg''}"
    by (auto simp: defaults_script)
  have "dest_of ` set (map arg_option script_arguments) \<subseteq> dom (defaults script_arguments)"
    unfolding d by (simp add: script_arguments_def dest_of_script)
  from consume_dom [OF _ this, of arg_like argv ns] assms d show ?thesis
    by (simp add: parse_args_def argparse_parse_args_def)
qed

lemma classify_script_options:
  "classify arg_like script_arguments ''--mode'' = Store ''mode'' None"
  "classify arg_like script_arguments ''--cfg'' = Store ''cfg'' None"
  "classify arg_like script_arguments ''-h'' = Help"
  "classify arg_like script_arguments ''--help'' = Help"
  by (simp_all add: classify_def script_arguments_def dest_of_script)

lemma dispatch_unrecognized:
  "m_mode \<noteq> ''train'' \<Longrightarrow> m_mode \<noteq> ''predict'' \<Longrightarrow> m_mode \<noteq> ''val'' \<Longrightarrow>
     m_mode \<noteq> ''export'' \<Longrightarrow> dispatch L model m_cfg m_mode s = (Inr (), s)"
  by (simp add: dispatch_def return_ok_def)

lemma load_model_calls:
  "load_model L m_cfg \<lparr>cli_calls = [], cli_world = w\<rparr> = (res, s) \<Longrightarrow>
     \<forall>c\<in>set (cli_calls s). \<not> model_operation c"
  by (auto simp: load_model_def then_do_def cli_extern_def subscript_def return_ok_def
      raise_def split: prod.splits sum.splits option.splits)

lemma main_unrecognized:
  assumes "parse_args arg_like argv = Some args"
    and "args ''mode'' = Some m_mode" and "args ''cfg'' = Some m_cfg"
    and "m_mode \<noteq> ''train''" and "m_mode \<noteq> ''predict''" and "m_mode \<noteq> ''val''"
    and "m_mode \<noteq> ''export''"
  shows "main L arg_like argv w
         = Some (case load_model L m_cfg \<lparr>cli_calls = [], cli_world = w\<rparr> of
                   (Inl e, s) \<Rightarrow> (Inl e, s) | (Inr model, s) \<Rightarrow> (Inr (), s))"
  using assms(1,2,3)
  by (simp add: main_def getattr_def then_do_def return_ok_def
      dispatch_unrecognized [OF assms(4,5,6,7)]
      split: prod.splits sum.splits)

lemma sample_classify:
  "classify sample_arg_like script_arguments ''--mo'' = Store ''mode'' None"
  "classify sample_arg_like script_arguments ''val'' = Argument"
  "classify sample_arg_like script_arguments ''bogus'' = Argument"
  "classify sample_arg_like script_arguments ''--epochs'' = Unknown"
  by (simp_all add: classify_def script_arguments_def dest_of_script partition_eq_def
      sample_arg_like_def)

lemma sample_parse_bogus:
  "parse_args sample_arg_like [''--mode'', ''bogus'']
     = Some ((defaults script_arguments)(''mode'' \<mapsto> ''bogus''))"
  by (simp add: parse_args_def argparse_parse_args_def sample_classify
      classify_script_options)

section \<open>The options of the command line\<close>

text \<open>
  Claim C8.  Without arguments the namespace holds \<open>mode = train\<close> and
  \<open>cfg = cfg.yaml\<close>.  Whenever \<open>parse_args\<close> returns a namespace, it has the two
  attributes \<open>mode\<close> and \<open>cfg\<close> and no other; every token of the command line was
  read as \<open>--mode\<close> or \<open>--cfg\<close> (written out, abbreviated, or with the value
  attached) or as an argument, so no other option was accepted; and an attribute whose
  option does not occur has its default.  Both options are accepted with a value that
  reads as an argument.  \<open>-h\<close> and \<open>--help\<close>, which every parser has, end the
  process instead of returning.
\<close>

theorem parse_args_options_and_defaults:
  "map_option (\<lambda>ns. (ns ''mode'', ns ''cfg'')) (parse_args arg_like [])
     = Some (Some ''train'', Some ''cfg.yaml'')
   \<and> (parse_args arg_like argv = Some ns \<longrightarrow>
        dom ns = {''mode'', ''cfg''}
      \<and> (\<forall>t\<in>set argv. classify arg_like script_arguments t = Argument
            \<or> (\<exists>v. classify arg_like script_arguments t = Store ''mode'' v)
            \<or> (\<exists>v. classify arg_like script_arguments t = Store ''cfg'' v))
      \<and> ((\<forall>t\<in>set argv. \<forall>v. classify arg_like script_arguments t \<noteq> Store ''mode'' v) \<longrightarrow>
            ns ''mode'' = Some ''train'')
      \<and> ((\<forall>t\<in>set argv. \<forall>v. classify arg_like script_arguments t \<noteq> Store ''cfg'' v) \<longrightarrow>
            ns ''cfg'' = Some ''cfg.yaml''))
   \<and> (classify arg_like script_arguments x = Argument \<longrightarrow>
        map_option (\<lambda>ns. (ns ''mode'', ns ''cfg'')) (parse_args arg_like [''--mode'', x])
          = Some (Some x, Some ''cfg.yaml'')
      \<and> map_option (\<lambda>ns. (ns ''mode'', ns ''cfg'')) (parse_args arg_like [''--cfg'', x])
          = Some (Some ''train'', Some x))
   \<and> parse_args arg_like [''-h''] = None \<and> parse_args arg_like [''--help''] = None"
proof (intro conjI impI)
  show "map_option (\<lambda>ns. (ns ''mode'', ns ''cfg'')) (parse_args arg_like [])
          = Some (Some ''train'', Some ''cfg.yaml'')"
    by (simp add: parse_args_def argparse_parse_args_def defaults_script)
next
  assume "parse_args arg_like argv = Some ns"
  then show "dom ns = {''mode'', ''cfg''}" by (rule parse_args_dom)
next
  assume p: "parse_args arg_like argv = Some ns"
  then have c: "consume arg_like script_arguments argv (defaults script_arguments) = Some ns"
    by (simp add: parse_args_def argparse_parse_args_def)
  show "\<forall>t\<in>set argv. classify arg_like script_arguments t = Argument
            \<or> (\<exists>v. classify arg_like script_arguments t = Store ''mode'' v)
            \<or> (\<exists>v. classify arg_like script_arguments t = Store ''cfg'' v)"
  proof
    fix t
    assume "t \<in> set argv"
    with consume_tokens [OF c]
    have "classify arg_like script_arguments t = Argument
            \<or> (\<exists>d v. classify arg_like script_arguments t = Store d v)"
      by simp
    then show "classify arg_like script_arguments t = Argument
            \<or> (\<exists>v. classify arg_like script_arguments t = Store ''mode'' v)
            \<or> (\<exists>v. classify arg_like script_arguments t = Store ''cfg'' v)"
    proof (elim disjE exE)
      assume "classify arg_like script_arguments t = Argument"
      then show ?thesis by simp
    next
      fix d v
      assume s: "classify arg_like script_arguments t = Store d v"
      from classify_store_dest [OF s] s show ?thesis by auto
    qed
  qed
next
  assume p: "parse_args arg_like argv = Some ns"
    and n: "\<forall>t\<in>set argv. \<forall>v. classify arg_like script_arguments t \<noteq> Store ''mode'' v"
  from p have c: "consume arg_like script_arguments argv (defaults script_arguments) = Some ns"
    by (simp add: parse_args_def argparse_parse_args_def)
  from consume_unchanged [OF c n] show "ns ''mode'' = Some ''train''"
    by (simp add: defaults_script)
next
  assume p: "parse_args arg_like argv = Some ns"
    and n: "\<forall>t\<in>set argv. \<forall>v. classify arg_like script_arguments t \<noteq> Store ''cfg'' v"
  from p have c: "consume arg_like script_arguments argv (defaults script_arguments) = Some ns"
    by (simp add: parse_args_def argparse_parse_args_def)
  from consume_unchanged [OF c n] show "ns ''cfg'' = Some ''cfg.yaml''"
    by (simp add: defaults_script)
next
  assume "classify arg_like script_arguments x = Argument"
  then show "map_option (\<lambda>ns. (ns ''mode'', ns ''cfg'')) (parse_args arg_like [''--mode'', x])
          = Some (Some x, Some ''cfg.yaml'')"
    by (simp add: parse_args_def argparse_parse_args_def defaults_script
        classify_script_options)
next
  assume "classify arg_like script_arguments x = Argument"
  then show "map_option (\<lambda>ns. (ns ''mode'', ns ''cfg'')) (parse_args arg_like [''--cfg'', x])
          = Some (Some ''train'', Some x)"
    by (simp add: parse_args_def argparse_parse_args_def defaults_script
        classify_script_options)
next
  show "parse_args arg_like [''-h''] = None"
    by (simp add: parse_args_def argparse_parse_args_def classify_script_options)
  show "parse_args arg_like [''--help''] = None"
    by (simp add: parse_args_def argparse_parse_args_def classify_script_options)
qed

text \<open>
  The abbreviation \<open>--mo val\<close> sets the mode and leaves the default of \<open>cfg\<close>; a
  command line with the option \<open>--epochs\<close> is rejected.
\<close>

theorem parse_args_example:
  "map_option (\<lambda>ns. (ns ''mode'', ns ''cfg'')) (parse_args sample_arg_like [''--mo'', ''val''])
     = Some (Some ''val'', Some ''cfg.yaml'')
   \<and> parse_args sample_arg_like [''--mode'', ''val'', ''--epochs'', ''3''] = None"
proof -
  let ?ns = "(defaults script_arguments)(''mode'' \<mapsto> ''val'')"
  have p: "parse_args sample_arg_like [''--mo'', ''val''] = Some ?ns"
    by (simp add: parse_args_def argparse_parse_args_def sample_classify)
  have n: "\<forall>t\<in>set [''--mo'', ''val'']. \<forall>v.
             classify sample_arg_like script_arguments t \<noteq> Store ''cfg'' v"
    by (simp add: sample_classify)
  from parse_args_options_and_defaults [of sample_arg_like "[''--mo'', ''val'']" ?ns] p n
  have "?ns ''cfg'' = Some ''cfg.yaml''" by blast
  with p have c1: "map_option (\<lambda>ns. (ns ''mode'', ns ''cfg''))
                     (parse_args sample_arg_like [''--mo'', ''val''])
                   = Some (Some ''val'', Some ''cfg.yaml'')"
    by simp
  have c2: "parse_args sample_arg_like [''--mode'', ''val'', ''--epochs'', ''3''] = None"
  proof (rule ccontr)
    assume "parse_args sample_arg_like [''--mode'', ''val'', ''--epochs'', ''3''] \<noteq> None"
    then obtain ns where
      q: "parse_args sample_arg_like [''--mode'', ''val'', ''--epochs'', ''3''] = Some ns"
      by auto
    from parse_args_options_and_defaults
           [of sample_arg_like "[''--mode'', ''val'', ''--epochs'', ''3'']" ns] q
    have "\<forall>t\<in>set [''--mode'', ''val'', ''--epochs'', ''3''].
            classify sample_arg_like script_arguments t = Argument
            \<or> (\<exists>v. classify sample_arg_like script_arguments t = Store ''mode'' v)
            \<or> (\<exists>v. classify sample_arg_like script_arguments t = Store ''cfg'' v)"
      by blast
    then show False by (simp add: sample_classify)
  qed
  from c1 c2 show ?thesis by (rule conjI)
qed

section \<open>An unrecognized mode\<close>

text \<open>
  Claim C5.  When the parsed mode is none of \<open>train\<close>, \<open>predict\<close>, \<open>val\<close> and
  \<open>export\<close>, the script ends with a trace of calls that holds none of the four model
  operations, and the dispatch itself returns without an exception and without having
  changed anything.
\<close>

theorem unrecognized_mode_invokes_no_operation:
  assumes "parse_args arg_like argv = Some args"
    and "args ''mode'' = Some m_mode"
    and "m_mode \<noteq> ''train''" and "m_mode \<noteq> ''predict''" and "m_mode \<noteq> ''val''"
    and "m_mode \<noteq> ''export''"
  shows "(\<exists>res s. main L arg_like argv w = Some (res, s)
            \<and> (\<forall>c\<in>set (cli_calls s). \<not> model_operation c))
       \<and> dispatch L model m_cfg m_mode s0 = (Inr (), s0)"
proof
  from parse_args_dom [OF assms(1)] have "''cfg'' \<in> dom args" by simp
  then obtain c where c: "args ''cfg'' = Some c" by (auto simp: dom_def)
  obtain r s where l: "load_model L c \<lparr>cli_calls = [], cli_world = w\<rparr> = (r, s)"
    by (cases "load_model L c \<lparr>cli_calls = [], cli_world = w\<rparr>")
  from main_unrecognized [OF assms(1,2) c assms(3,4,5,6), of L w] l
  have m: "main L arg_like argv w
             = Some (case r of Inl e \<Rightarrow> Inl e | Inr model \<Rightarrow> Inr (), s)"
    by (simp split: sum.splits)
  from load_model_calls [OF l] have n: "\<forall>c\<in>set (cli_calls s). \<not> model_operation c" .
  show "\<exists>res s. main L arg_like argv w = Some (res, s)
            \<and> (\<forall>c\<in>set (cli_calls s). \<not> model_operation c)"
  proof (intro exI conjI)
    show "main L arg_like argv w
            = Some (case r of Inl e \<Rightarrow> Inl e | Inr model \<Rightarrow> Inr (), s)" by (rule m)
    show "\<forall>c\<in>set (cli_calls s). \<not> model_operation c" by (rule n)
  qed
next
  show "dispatch L model m_cfg m_mode s0 = (Inr (), s0)"
    by (rule dispatch_unrecognized [OF assms(3,4,5,6)])
qed

text \<open>With \<open>--mode bogus\<close> the dispatch does nothing and no operation is in the trace.\<close>

theorem unrecognized_mode_example:
  "dispatch sample_cli (PStr ''yolov8n.pt'') ''cfg.yaml'' ''bogus''
     \<lparr>cli_calls = [], cli_world = 0\<rparr> = (Inr (), \<lparr>cli_calls = [], cli_world = 0\<rparr>)
   \<and> map_option (\<lambda>rs. filter model_operation (cli_calls (snd rs)))
        (main sample_cli sample_arg_like [''--mode'', ''bogus''] 0) = Some []"
proof -
  let ?ns = "(defaults script_arguments)(''mode'' \<mapsto> ''bogus'')"
  have a: "?ns ''mode'' = Some ''bogus''" by simp
  have i: "''bogus'' \<noteq> ''train''" "''bogus'' \<noteq> ''predict''" "''bogus'' \<noteq> ''val''"
    "''bogus'' \<noteq> ''export''"
    by simp_all
  note t = unrecognized_mode_invokes_no_operation
             [OF sample_parse_bogus a i, of sample_cli 0 "PStr ''yolov8n.pt''" "''cfg.yaml''"
                "\<lparr>cli_calls = [], cli_world = 0\<rparr>"]
  from t have d: "dispatch sample_cli (PStr ''yolov8n.pt'') ''cfg.yaml'' ''bogus''
                    \<lparr>cli_calls = [], cli_world = 0\<rparr>
                  = (Inr (), \<lparr>cli_calls = [], cli_world = 0\<rparr>)"
    by (rule conjunct2)
  from t [THEN conjunct1]
  have m: "map_option (\<lambda>rs. filter model_operation (cli_calls (snd rs)))
             (main sample_cli sample_arg_like [''--mode'', ''bogus''] 0) = Some []"
  proof (elim exE conjE)
    fix res s
    assume 1: "main sample_cli sample_arg_like [''--mode'', ''bogus''] 0 = Some (res, s)"
      and 2: "\<forall>c\<in>set (cli_calls s). \<not> model_operation c"
    from 2 have "filter model_operation (cli_calls s) = []" by (simp add: filter_empty_conv)
    with 1 show ?thesis by simp
  qed
  from d m show ?thesis by (rule conjI)
qed

text \<open>
  Claim C10.  When the parsed mode is none of the four, the script does exactly what
  lines 22 to 24 do: it checks the configuration file, loads it, reads its \<open>model\<close>
  entry and builds the model, with every exception of these steps raised as it is; when
  the four steps succeed the trace holds these three calls in this order and the script
  ends normally.
\<close>

theorem unrecognized_mode_still_loads_model:
  assumes "parse_args arg_like argv = Some args"
    and "args ''mode'' = Some m_mode" and "args ''cfg'' = Some m_cfg"
    and "m_mode \<noteq> ''train''" and "m_mode \<noteq> ''predict''" and "m_mode \<noteq> ''val''"
    and "m_mode \<noteq> ''export''"
  shows "main L arg_like argv w
           = Some (case load_model L m_cfg \<lparr>cli_calls = [], cli_world = w\<rparr> of
                     (Inl e, s) \<Rightarrow> (Inl e, s) | (Inr model, s) \<Rightarrow> (Inr (), s))
       \<and> (check_yaml L m_cfg w = (Inr file, w1) \<and> yaml_load L file w1 = (Inr m_overrides, w2)
            \<and> m_overrides ''model'' = Some m_model_file
            \<and> new_YOLO L m_model_file w2 = (Inr model, w3) \<longrightarrow>
            main L arg_like argv w
              = Some (Inr (), \<lparr>cli_calls = [Call_check_yaml m_cfg, Call_yaml_load file,
                                            Call_new_YOLO m_model_file],
                               cli_world = w3\<rparr>))"
proof (intro conjI impI)
  show m: "main L arg_like argv w
           = Some (case load_model L m_cfg \<lparr>cli_calls = [], cli_world = w\<rparr> of
                     (Inl e, s) \<Rightarrow> (Inl e, s) | (Inr model, s) \<Rightarrow> (Inr (), s))"
    by (rule main_unrecognized [OF assms])
  assume "check_yaml L m_cfg w = (Inr file, w1) \<and> yaml_load L file w1 = (Inr m_overrides, w2)
            \<and> m_overrides ''model'' = Some m_model_file
            \<and> new_YOLO L m_model_file w2 = (Inr model, w3)"
  then have "load_model L m_cfg \<lparr>cli_calls = [], cli_world = w\<rparr>
               = (Inr model, \<lparr>cli_calls = [Call_check_yaml m_cfg, Call_yaml_load file,
                                            Call_new_YOLO m_model_file],
                               cli_world = w3\<rparr>)"
    by (simp add: load_model_def then_do_def cli_extern_def subscript_def return_ok_def)
  with m show "main L arg_like argv w
              = Some (Inr (), \<lparr>cli_calls = [Call_check_yaml m_cfg, Call_yaml_load file,
                                            Call_new_YOLO m_model_file],
                               cli_world = w3\<rparr>)"
    by simp
qed

text \<open>
  With \<open>--mode bogus\<close> and the default configuration file, the three calls are made
  and the script ends normally.
\<close>

theorem unrecognized_mode_loads_model_example:
  "main sample_cli sample_arg_like [''--mode'', ''bogus''] 0
     = Some (Inr (), \<lparr>cli_calls = [Call_check_yaml ''cfg.yaml'', Call_yaml_load ''cfg.yaml'',
                                   Call_new_YOLO (PStr ''yolov8n.pt'')],
                      cli_world = 3\<rparr>)"
proof -
  let ?ns = "(defaults script_arguments)(''mode'' \<mapsto> ''bogus'')"
  have a: "?ns ''mode'' = Some ''bogus''" by simp
  have b: "?ns ''cfg'' = Some ''cfg.yaml''" by (simp add: defaults_script)
  have i: "''bogus'' \<noteq> ''train''" "''bogus'' \<noteq> ''predict''" "''bogus'' \<noteq> ''val''"
    "''bogus'' \<noteq> ''export''"
    by simp_all
  have h: "check_yaml sample_cli ''cfg.yaml'' 0 = (Inr ''cfg.yaml'', 1)
           \<and> yaml_load sample_cli ''cfg.yaml'' 1
               = (Inr [''model'' \<mapsto> PStr ''yolov8n.pt'', ''epochs'' \<mapsto> PNum 3], 2)
           \<and> [''model'' \<mapsto> PStr ''yolov8n.pt'', ''epochs'' \<mapsto> PNum 3] ''model''
               = Some (PStr ''yolov8n.pt'')
           \<and> new_YOLO sample_cli (PStr ''yolov8n.pt'') 2 = (Inr (PStr ''yolov8n.pt''), 3)"
    by (simp add: sample_cli_def)
  from unrecognized_mode_still_loads_model [OF sample_parse_bogus a b i, THEN conjunct2] h
  show ?thesis by (rule mp)
qed

end
